theory Spec2Isabelle
  imports Main "HOL-Library.Char_ord" "HOL-Library.List_Lexorder"
begin

section \<open>Python values, errors and results\<close>

text \<open>
  The module \<^verbatim>\<open>text_classifier/strategies/multiclass.py\<close> defines three strategy
  classes. Every method is modelled as a function from the instance (a record of its
  attributes) and, where the method touches files, the file system, to the outcome
  and the instance and file system as the call leaves them. A Python exception leaves
  the attributes assigned so far in place, so a failing call returns the partly
  updated instance next to its error. The base class \<^verbatim>\<open>TextClassifierStrategy\<close> is
  declared in another module; the three classes define every attribute and method they
  use and call nothing of it, so it is taken to declare the interface only.

  Only the exception classes are kept, except for \<^verbatim>\<open>RuntimeError\<close>, whose message
  tells the three guards of the source apart, and \<^verbatim>\<open>FileNotFoundError\<close> and
  \<^verbatim>\<open>OSError\<close>, which carry the path. \<open>DecodeError\<close> stands for what a deserializer raises on a file
  of another format, \<open>LibraryError\<close> for what a graph converter raises, whatever its
  class, with its message.
\<close>

datatype error =
    RuntimeError string
  | AttributeError
  | FileNotFoundError string
  | DecodeError
  | KeyError string
  | ValueError
  | TypeError
  | IndexError
  | NotFittedError
  | OSError string
  | LibraryError string

type_synonym 'a result = "error + 'a"

definition bind_result :: "'a result \<Rightarrow> ('a \<Rightarrow> 'b result) \<Rightarrow> 'b result" where
  "bind_result r f = (case r of Inl e \<Rightarrow> Inl e | Inr x \<Rightarrow> f x)"

text \<open>A comprehension whose body may raise: the first exception ends it.\<close>

fun map_result :: "('a \<Rightarrow> 'b result) \<Rightarrow> 'a list \<Rightarrow> 'b list result" where
  "map_result f [] = Inr []"
| "map_result f (x # xs) =
     (case f x of
        Inl e \<Rightarrow> Inl e
      | Inr y \<Rightarrow> (case map_result f xs of Inl e \<Rightarrow> Inl e | Inr ys \<Rightarrow> Inr (y # ys)))"

text \<open>
  The messages of the three guards on \<^verbatim>\<open>_is_trained\<close>; the specification calls any
  of them the "untrained model" error.
\<close>

definition untrained_error :: "error \<Rightarrow> bool" where
  "untrained_error e =
     (e = RuntimeError ''Cannot save untrained model''
      \<or> e = RuntimeError ''Model must be trained before exporting to ONNX''
      \<or> e = RuntimeError ''Model must be trained before predicting'')"

subsection \<open>Decimal rendering and f-strings\<close>

text \<open>\<^verbatim>\<open>str(i)\<close> for a non-negative integer: its decimal digits, no leading zero.\<close>

definition digit_char :: "nat \<Rightarrow> char" where
  "digit_char d = char_of (48 + d)"

fun str_nat :: "nat \<Rightarrow> string" where
  "str_nat n = (if n < 10 then [digit_char n] else str_nat (n div 10) @ [digit_char (n mod 10)])"

declare str_nat.simps [simp del]

text \<open>
  \<^verbatim>\<open>output_path\<close> is an \<^verbatim>\<open>Optional[str]\<close> with default \<^verbatim>\<open>None\<close>; an f-string
  renders \<^verbatim>\<open>None\<close> as the four characters \<^verbatim>\<open>None\<close>.
\<close>

definition fmt_opt :: "string option \<Rightarrow> string" where
  "fmt_opt p = (case p of None \<Rightarrow> ''None'' | Some s \<Rightarrow> s)"

text \<open>
  The two path patterns of the source: \<^verbatim>\<open>f"{self.output_path}/<name>"\<close>, which the
  \<^verbatim>\<open>save_model\<close> and \<^verbatim>\<open>export_to_onnx\<close> methods write to, and
  \<^verbatim>\<open>f"models/{filename_prefix}_<name>"\<close>, which the \<^verbatim>\<open>load_model\<close> methods read.
\<close>

definition out_file :: "string option \<Rightarrow> string \<Rightarrow> string" where
  "out_file output_path name = fmt_opt output_path @ ''/'' @ name"

definition models_file :: "string \<Rightarrow> string \<Rightarrow> string" where
  "models_file filename_prefix name = ''models/'' @ filename_prefix @ ''_'' @ name"

subsection \<open>JSON documents\<close>

text \<open>
  The two JSON artifacts are objects with string keys whose values are integers
  (\<^verbatim>\<open>vocab.json\<close>) or strings (\<^verbatim>\<open>scaler.json\<close>). A dictionary is an association
  list in insertion order; a JSON file is identified with the dictionary
  \<^verbatim>\<open>json.load\<close> returns for it. Documents with other kinds of value (arrays, floats,
  nested objects) are not represented.
\<close>

datatype jval = JInt int | JStr string

type_synonym jdict = "(string \<times> jval) list"

section \<open>Library functions the strategies call\<close>

subsection \<open>Keras \<^verbatim>\<open>pad_sequences\<close>\<close>

text \<open>
  \<^verbatim>\<open>pad_sequences(sequences, maxlen, dtype='int32', padding='pre', truncating='pre',
  value=0.0)\<close> allocates \<^verbatim>\<open>np.full((num_samples, maxlen), value)\<close> and, for every
  non-empty sequence \<^verbatim>\<open>s\<close>, takes \<^verbatim>\<open>trunc = s[-maxlen:]\<close> (truncating \<^verbatim>\<open>'pre'\<close>)
  or \<^verbatim>\<open>s[:maxlen]\<close> (\<^verbatim>\<open>'post'\<close>) and assigns it to \<^verbatim>\<open>x[idx, :len(trunc)]\<close>
  (padding \<^verbatim>\<open>'post'\<close>) or \<^verbatim>\<open>x[idx, -len(trunc):]\<close> (\<^verbatim>\<open>'pre'\<close>).
\<close>

datatype side = Pre | Post

text \<open>Python slices \<^verbatim>\<open>s[i:]\<close> and \<^verbatim>\<open>s[:i]\<close>, negative bounds counting from the end.\<close>

definition slice_bound :: "int \<Rightarrow> 'a list \<Rightarrow> nat" where
  "slice_bound i s =
     (let n = int (length s) in nat (if i < 0 then max 0 (n + i) else min i n))"

definition slice_from :: "int \<Rightarrow> 'a list \<Rightarrow> 'a list" where
  "slice_from i s = drop (slice_bound i s) s"

definition slice_to :: "int \<Rightarrow> 'a list \<Rightarrow> 'a list" where
  "slice_to i s = take (slice_bound i s) s"

text \<open>
  One row. The target slice of the row has \<open>min (length trunc) maxlen\<close> cells; NumPy
  accepts the assignment when the lengths agree or when \<open>trunc\<close> has one element (which
  it broadcasts), and raises \<^verbatim>\<open>ValueError\<close> otherwise. The lengths can differ only for
  \<open>maxlen = 0\<close>, where \<^verbatim>\<open>s[-0:]\<close> is the whole sequence.
\<close>

definition pad_row :: "int \<Rightarrow> side \<Rightarrow> side \<Rightarrow> int \<Rightarrow> int list \<Rightarrow> int list result" where
  "pad_row maxlen padding truncating v s =
     (if s = [] then Inr (replicate (nat maxlen) v)
      else
        let trunc = (case truncating of
                       Pre \<Rightarrow> slice_from (- maxlen) s
                     | Post \<Rightarrow> slice_to maxlen s);
            k = length trunc
        in if k \<le> nat maxlen then
             Inr (case padding of
                    Post \<Rightarrow> trunc @ replicate (nat maxlen - k) v
                  | Pre \<Rightarrow> replicate (nat maxlen - k) v @ trunc)
           else if k = 1 then Inr (replicate (nat maxlen) v)
           else Inl ValueError)"

text \<open>\<^verbatim>\<open>np.full\<close> refuses a negative dimension before any row is filled.\<close>

definition pad_sequences :: "int list list \<Rightarrow> int \<Rightarrow> side \<Rightarrow> side \<Rightarrow> int \<Rightarrow> int list list result" where
  "pad_sequences sequences maxlen padding truncating v =
     (if maxlen < 0 then Inl ValueError
      else map_result (pad_row maxlen padding truncating v) sequences)"

subsection \<open>NumPy helpers\<close>

text \<open>\<^verbatim>\<open>np.unique\<close>: the sorted distinct elements.\<close>

definition np_unique :: "'a::linorder list \<Rightarrow> 'a list" where
  "np_unique ys = remdups_adj (sort ys)"

text \<open>\<^verbatim>\<open>str(i)\<close> for any integer.\<close>

definition str_int :: "int \<Rightarrow> string" where
  "str_int i = (if i < 0 then CHR ''-'' # str_nat (nat (- i)) else str_nat (nat i))"

definition is_JStr :: "jval \<Rightarrow> bool" where
  "is_JStr v = (case v of JStr _ \<Rightarrow> True | JInt _ \<Rightarrow> False)"

definition is_JInt :: "jval \<Rightarrow> bool" where
  "is_JInt v = (case v of JInt _ \<Rightarrow> True | JStr _ \<Rightarrow> False)"

text \<open>
  \<^verbatim>\<open>np.array\<close> of a list of integers and strings: an array has one element type, so
  a list that mixes both becomes an array of strings.
\<close>

definition np_array :: "jval list \<Rightarrow> jval list" where
  "np_array vs =
     (if list_all is_JStr vs \<or> list_all is_JInt vs then vs
      else map (\<lambda>v. case v of JInt i \<Rightarrow> JStr (str_int i) | JStr s \<Rightarrow> JStr s) vs)"

text \<open>
  \<^verbatim>\<open>torch.argmax(outputs, dim=1)\<close> and \<^verbatim>\<open>np.argmax(p, axis=1)\<close> on one row: the
  index of the first maximal entry. A row with no entry is refused, by PyTorch with
  \<^verbatim>\<open>IndexError\<close> and by NumPy with \<^verbatim>\<open>ValueError\<close>.
\<close>

fun argmax_from :: "nat \<Rightarrow> 'a::linorder \<Rightarrow> nat \<Rightarrow> 'a list \<Rightarrow> nat" where
  "argmax_from best b i [] = best"
| "argmax_from best b i (x # xs) =
     (if b < x then argmax_from i x (Suc i) xs else argmax_from best b (Suc i) xs)"

definition argmax :: "error \<Rightarrow> 'a::linorder list \<Rightarrow> nat result" where
  "argmax empty_row row = (case row of [] \<Rightarrow> Inl empty_row | x # xs \<Rightarrow> Inr (argmax_from 0 x 1 xs))"

definition torch_argmax :: "'a::linorder list list \<Rightarrow> nat list result" where
  "torch_argmax outputs = map_result (argmax IndexError) outputs"

definition np_argmax :: "'a::linorder list list \<Rightarrow> nat list result" where
  "np_argmax p = map_result (argmax ValueError) p"

subsection \<open>scikit-learn \<^verbatim>\<open>LabelEncoder\<close>\<close>

text \<open>
  The encoder's only attribute is \<^verbatim>\<open>classes_\<close>, absent until it is fitted or until
  \<^verbatim>\<open>load_model\<close> assigns it. \<^verbatim>\<open>fit_transform(y)\<close> stores \<^verbatim>\<open>np.unique(y)\<close> as
  \<^verbatim>\<open>classes_\<close> (the first component below) and returns, for every label, its
  position there (the number of distinct smaller labels).
\<close>

type_synonym label_encoder = "jval list option"

definition fit_transform :: "string list \<Rightarrow> jval list \<times> nat list" where
  "fit_transform y =
     (let classes = np_unique y
      in (map JStr classes, map (\<lambda>l. length (filter (\<lambda>c. c < l) classes)) y))"

text \<open>
  \<^verbatim>\<open>transform(y)\<close> refuses an encoder that is not fitted (\<^verbatim>\<open>NotFittedError\<close>),
  casts \<^verbatim>\<open>y\<close> to the element type of \<^verbatim>\<open>classes_\<close>, builds the table
  \<^verbatim>\<open>{val: i for i, val in enumerate(classes_)}\<close> and looks every cast label up; a
  label that is not a key raises \<^verbatim>\<open>ValueError\<close>. An array of strings has the element
  type \<^verbatim>\<open><Un\<close>, \<open>n\<close> being the length of its longest string and at least 1, and
  the cast to it cuts a label down to its first \<open>n\<close> characters: a test label that
  starts with a training label of full width is taken for that label. (The labels
  are taken to arrive as NumPy arrays of strings, as \<^verbatim>\<open>np.array\<close> makes them from a
  list of strings; lengths are counted in characters, which are NumPy's code points
  for ASCII labels.)

  Classes that are no strings come from \<^verbatim>\<open>load_model\<close> only, and every
  \<^verbatim>\<open>transform\<close> of the source follows a \<^verbatim>\<open>fit_transform\<close> of the same call, whose
  classes are strings; for other classes the cast is left out and the label is looked
  up as it is.
\<close>

definition str_width :: "jval list \<Rightarrow> nat" where
  "str_width classes =
     max 1 (foldr max (map (\<lambda>v. case v of JStr s \<Rightarrow> length s | JInt _ \<Rightarrow> 0) classes) 0)"

definition cast_label :: "jval list \<Rightarrow> string \<Rightarrow> string" where
  "cast_label classes l = (if list_all is_JStr classes then take (str_width classes) l else l)"

definition class_table :: "jval list \<Rightarrow> jval \<Rightarrow> nat option" where
  "class_table classes = map_of (rev (zip classes [0..<length classes]))"

definition transform :: "label_encoder \<Rightarrow> string list \<Rightarrow> nat list result" where
  "transform enc y =
     (case enc of
        None \<Rightarrow> Inl NotFittedError
      | Some classes \<Rightarrow>
          map_result (\<lambda>l. case class_table classes (JStr (cast_label classes l)) of
                             None \<Rightarrow> Inl ValueError
                           | Some i \<Rightarrow> Inr i) y)"

subsection \<open>Keras \<^verbatim>\<open>Tokenizer\<close>\<close>

text \<open>
  The tokenizer's internals are the library's. The strategies read and assign its
  \<^verbatim>\<open>word_index\<close> attribute and call \<^verbatim>\<open>fit_on_texts\<close> and
  \<^verbatim>\<open>texts_to_sequences\<close>; the two methods are parameters of the model, the second
  one with the conversion of its result to an integer array, which fails when a loaded
  \<^verbatim>\<open>word_index\<close> maps a word to something that is no integer.
\<close>

record 'tk tokenizer =
  word_index :: jdict
  tk_state :: 'tk

record 'tk tokenizer_lib =
  new_tokenizer :: "int \<Rightarrow> string \<Rightarrow> 'tk"
  fit_on_texts :: "'tk tokenizer \<Rightarrow> string list \<Rightarrow> 'tk tokenizer"
  texts_to_sequences :: "'tk tokenizer \<Rightarrow> string list \<Rightarrow> int list list result"

text \<open>\<^verbatim>\<open>Tokenizer(num_words=vocab_size, oov_token="<OOV>")\<close>: no word is indexed yet.\<close>

definition Tokenizer :: "'tk tokenizer_lib \<Rightarrow> int \<Rightarrow> string \<Rightarrow> 'tk tokenizer" where
  "Tokenizer K num_words oov_token =
     \<lparr>word_index = [], tk_state = new_tokenizer K num_words oov_token\<rparr>"

text \<open>
  The expression both recurrent strategies use to shape their input:
  \<^verbatim>\<open>pad_sequences(self.tokenizer.texts_to_sequences(X), maxlen=self.max_len,
  padding="post")\<close>. \<^verbatim>\<open>truncating\<close> and \<^verbatim>\<open>value\<close> keep their defaults.
\<close>

definition texts_to_padded ::
  "'tk tokenizer_lib \<Rightarrow> 'tk tokenizer \<Rightarrow> int \<Rightarrow> string list \<Rightarrow> int list list result" where
  "texts_to_padded K tok max_len X =
     (case texts_to_sequences K tok X of
        Inl e \<Rightarrow> Inl e
      | Inr seqs \<Rightarrow> pad_sequences seqs max_len Post Pre 0)"

subsection \<open>Metrics\<close>

text \<open>
  \<^verbatim>\<open>accuracy_score\<close> and \<^verbatim>\<open>classification_report\<close> are parameters; both may raise
  (on arrays of different lengths, for instance).
\<close>

record 'r metrics_lib =
  accuracy_score :: "nat list \<Rightarrow> jval list \<Rightarrow> 'r result"
  classification_report :: "nat list \<Rightarrow> jval list \<Rightarrow> jval list \<Rightarrow> 'r result"

record 'r metrics =
  train_accuracy :: 'r
  test_accuracy :: 'r
  report :: 'r

definition evaluate ::
  "'r metrics_lib \<Rightarrow> nat list \<Rightarrow> jval list \<Rightarrow> nat list \<Rightarrow> jval list \<Rightarrow> jval list
     \<Rightarrow> 'r metrics result" where
  "evaluate M y_train_enc train_pred y_test_enc test_pred target_names =
     (case accuracy_score M y_train_enc train_pred of
        Inl e \<Rightarrow> Inl e
      | Inr a \<Rightarrow>
     (case accuracy_score M y_test_enc test_pred of
        Inl e \<Rightarrow> Inl e
      | Inr b \<Rightarrow>
     (case classification_report M y_test_enc test_pred target_names of
        Inl e \<Rightarrow> Inl e
      | Inr c \<Rightarrow> Inr \<lparr>train_accuracy = a, test_accuracy = b, report = c\<rparr>)))"

subsection \<open>Files\<close>

text \<open>
  A file holds a serialized model (what \<^verbatim>\<open>torch.save\<close>, \<^verbatim>\<open>model.save\<close> or
  \<^verbatim>\<open>joblib.dump\<close> wrote), a JSON object, an exported graph, or anything else. The file
  system maps a path, as the source formats it, to the file there.

  Environment assumption: the directories the formatted paths lie in exist and are
  writable, and two paths name the same file only if they are the same string (no
  links). Under it \<^verbatim>\<open>os.makedirs(..., exist_ok=True)\<close> changes nothing and opening a
  file for writing succeeds, so neither is a step of the model. Opening a missing file
  for reading raises \<^verbatim>\<open>FileNotFoundError\<close> (\<^verbatim>\<open>open\<close>, \<^verbatim>\<open>torch.load\<close>,
  \<^verbatim>\<open>joblib.load\<close>); reading a file of another kind raises in the deserializer
  (\<open>DecodeError\<close>).
\<close>

datatype dim = Dyn | Fixed int

record onnx_graph =
  graph_inputs :: "(string \<times> dim list) list"
  graph_outputs :: "(string \<times> dim list) list"
  graph_opset :: nat

datatype 'm content = ModelFile 'm | JsonFile jdict | OnnxFile onnx_graph | OtherFile

type_synonym 'm fs = "string \<Rightarrow> 'm content option"

definition read_model :: "'m fs \<Rightarrow> string \<Rightarrow> 'm result" where
  "read_model files path =
     (case files path of
        None \<Rightarrow> Inl (FileNotFoundError path)
      | Some (ModelFile m) \<Rightarrow> Inr m
      | Some _ \<Rightarrow> Inl DecodeError)"

text \<open>
  \<^verbatim>\<open>tf.keras.models.load_model\<close> reports a missing file as a plain \<^verbatim>\<open>OSError\<close>.
\<close>

definition keras_load_model :: "'m fs \<Rightarrow> string \<Rightarrow> 'm result" where
  "keras_load_model files path =
     (case files path of
        None \<Rightarrow> Inl (OSError path)
      | Some (ModelFile m) \<Rightarrow> Inr m
      | Some _ \<Rightarrow> Inl DecodeError)"

definition json_load :: "'m fs \<Rightarrow> string \<Rightarrow> jdict result" where
  "json_load files path =
     (case files path of
        None \<Rightarrow> Inl (FileNotFoundError path)
      | Some (JsonFile d) \<Rightarrow> Inr d
      | Some _ \<Rightarrow> Inl DecodeError)"

text \<open>\<^verbatim>\<open>d[k]\<close> on a dictionary.\<close>

definition dict_get :: "jdict \<Rightarrow> string \<Rightarrow> jval result" where
  "dict_get d k = (case map_of d k of None \<Rightarrow> Inl (KeyError k) | Some v \<Rightarrow> Inr v)"

text \<open>
  \<^verbatim>\<open>[classes[str(i)] for i in range(len(classes))]\<close>, the decoding of a loaded label
  map that all three \<^verbatim>\<open>load_model\<close> methods share.
\<close>

definition labels_of_json :: "jdict \<Rightarrow> jval list result" where
  "labels_of_json classes = map_result (\<lambda>i. dict_get classes (str_nat i)) [0..<length classes]"

text \<open>
  \<^verbatim>\<open>json.dump({i: label for i, label in enumerate(self.label_encoder.classes_)}, f)\<close>:
  the integer keys are written as their decimal strings. The elements of the array
  \<^verbatim>\<open>classes_\<close> are NumPy scalars; a string is written as it is, a NumPy integer is
  not serializable (\<^verbatim>\<open>TypeError\<close>).
\<close>

definition dump_label :: "jval \<Rightarrow> jval result" where
  "dump_label v = (case v of JStr s \<Rightarrow> Inr (JStr s) | JInt _ \<Rightarrow> Inl TypeError)"

definition label_map_json :: "jval list \<Rightarrow> jdict result" where
  "label_map_json classes =
     (case map_result dump_label classes of
        Inl e \<Rightarrow> Inl e
      | Inr vs \<Rightarrow> Inr (zip (map str_nat [0..<length classes]) vs))"

text \<open>
  The \<^verbatim>\<open>with open(f"{self.output_path}/scaler.json", "w")\<close> block, the same in the
  three \<^verbatim>\<open>save_model\<close> methods. The file is opened, and so emptied, before
  \<^verbatim>\<open>classes_\<close> is read: when the dump raises, a file that is no JSON document is left.
\<close>

definition write_scaler :: "label_encoder \<Rightarrow> string \<Rightarrow> 'm fs \<Rightarrow> unit result \<times> 'm fs" where
  "write_scaler enc path files =
     (case enc of
        None \<Rightarrow> (Inl AttributeError, files(path \<mapsto> OtherFile))
      | Some classes \<Rightarrow>
          (case label_map_json classes of
             Inl e \<Rightarrow> (Inl e, files(path \<mapsto> OtherFile))
           | Inr d \<Rightarrow> (Inr (), files(path \<mapsto> JsonFile d))))"

section \<open>PyTorchLSTMStrategy\<close>

subsection \<open>The network\<close>

text \<open>
  \<^verbatim>\<open>TextClassifier\<close> has an embedding, a bidirectional LSTM, a dropout, two linear
  layers and a ReLU. What the layers compute from their parameters is the library's:
  the parameters are a value of an arbitrary type \<open>'w\<close> and the layers are functions of
  it, over scalars of an arbitrary ordered type \<open>'a\<close>. A vector is a list of scalars, a
  sequence a list of vectors, a batch a list of sequences (or, after the reduction to
  one time step, of vectors). Also the library's are the
  construction of the module with its initial parameters, which may raise (on a
  vocabulary size of 0, for instance), the optimisation and the copying of a state dict
  into a module, which may raise and then leave whatever parameters they reached, and
  whether \<^verbatim>\<open>torch.onnx.export\<close>, which runs the module on the dummy input, raises.
  The device placement (\<^verbatim>\<open>.to(self.device)\<close>) has no effect on any value and is left
  out.
\<close>

record shape =
  sh_vocab_size :: int
  sh_embedding_dim :: int
  sh_hidden_dim :: int
  sh_num_classes :: nat

record ('w, 'a) torch_lib =
  init_params :: "shape \<Rightarrow> 'w result"
  embedding :: "'w \<Rightarrow> int \<Rightarrow> 'a list"
  lstm :: "'w \<Rightarrow> 'a list list list \<Rightarrow> 'a list list list result"
  dropout_mask :: "'a list list \<Rightarrow> 'a list list"
  fc1 :: "'w \<Rightarrow> 'a list \<Rightarrow> 'a list"
  fc2 :: "'w \<Rightarrow> 'a list \<Rightarrow> 'a list"
  optimise :: "shape \<Rightarrow> 'w \<Rightarrow> int list list \<Rightarrow> nat list \<Rightarrow> error option \<times> 'w"
  load_state_dict :: "shape \<Rightarrow> 'w \<Rightarrow> 'w \<Rightarrow> error option \<times> 'w"
  export_failure :: "shape \<Rightarrow> 'w \<Rightarrow> int list \<Rightarrow> string option"

record 'w net =
  net_shape :: shape
  net_params :: 'w
  net_training :: bool

text \<open>\<^verbatim>\<open>nn.Embedding\<close> raises \<^verbatim>\<open>IndexError\<close> on an index outside \<open>0 ..< vocab_size\<close>.\<close>

definition embedding_lookup :: "('w, 'a) torch_lib \<Rightarrow> 'w net \<Rightarrow> int \<Rightarrow> 'a list result" where
  "embedding_lookup T m i =
     (if 0 \<le> i \<and> i < sh_vocab_size (net_shape m) then Inr (embedding T (net_params m) i)
      else Inl IndexError)"

text \<open>
  \<^verbatim>\<open>x[:, 0, :]\<close>: of every sequence of the batch, the entry at time step 0; there is
  none in an empty sequence (\<^verbatim>\<open>IndexError\<close>).
\<close>

definition first_step :: "'v list \<Rightarrow> 'v result" where
  "first_step ys = (case ys of [] \<Rightarrow> Inl IndexError | y # _ \<Rightarrow> Inr y)"

text \<open>\<^verbatim>\<open>nn.Dropout(0.5)\<close> is the identity in evaluation mode.\<close>

definition dropout :: "('w, 'a) torch_lib \<Rightarrow> 'w net \<Rightarrow> 'a list list \<Rightarrow> 'a list list" where
  "dropout T m x = (if net_training m then dropout_mask T x else x)"

definition relu :: "'a::{linorder, zero} list \<Rightarrow> 'a list" where
  "relu x = map (max 0) x"

text \<open>
  \<^verbatim>\<open>TextClassifier.forward\<close>, statement by statement. The linear layers and the ReLU
  act on the last axis, that is on every vector of the batch.
\<close>

definition forward ::
  "('w, 'a::{linorder, zero}) torch_lib \<Rightarrow> 'w net \<Rightarrow> int list list \<Rightarrow> 'a list list result" where
  "forward T m input_ids =
     (case map_result (map_result (embedding_lookup T m)) input_ids of
        Inl e \<Rightarrow> Inl e
      | Inr x \<Rightarrow>
     (case lstm T (net_params m) x of
        Inl e \<Rightarrow> Inl e
      | Inr x \<Rightarrow>
     (case map_result first_step x of
        Inl e \<Rightarrow> Inl e
      | Inr x \<Rightarrow>
          let x = dropout T m x;
              x = map (\<lambda>v. relu (fc1 T (net_params m) v)) x
          in Inr (map (fc2 T (net_params m)) x))))"

subsection \<open>The strategy\<close>

record ('tk, 'w) pt_strategy =
  pt_vocab_size :: int
  pt_embedding_dim :: int
  pt_hidden_dim :: int
  pt_max_len :: int
  pt_tokenizer :: "'tk tokenizer"
  pt_label_encoder :: label_encoder
  pt_model :: "'w net option"
  pt_is_trained :: bool
  pt_output_path :: "string option"

record ('tk, 'w, 'a, 'r) pt_lib =
  pt_keras :: "'tk tokenizer_lib"
  pt_torch :: "('w, 'a) torch_lib"
  pt_sklearn :: "'r metrics_lib"

definition pt_init ::
  "('tk, 'w, 'a, 'r) pt_lib \<Rightarrow> int \<Rightarrow> int \<Rightarrow> int \<Rightarrow> int \<Rightarrow> string option \<Rightarrow> ('tk, 'w) pt_strategy" where
  "pt_init L vocab_size embedding_dim hidden_dim max_len output_path =
     \<lparr>pt_vocab_size = vocab_size,
      pt_embedding_dim = embedding_dim,
      pt_hidden_dim = hidden_dim,
      pt_max_len = max_len,
      pt_tokenizer = Tokenizer (pt_keras L) vocab_size ''<OOV>'',
      pt_label_encoder = None,
      pt_model = None,
      pt_is_trained = False,
      pt_output_path = output_path\<rparr>"

text \<open>A module is in training mode when it is constructed.\<close>

definition pt_build_model ::
  "('tk, 'w, 'a, 'r) pt_lib \<Rightarrow> ('tk, 'w) pt_strategy \<Rightarrow> nat \<Rightarrow> 'w net result" where
  "pt_build_model L s num_classes =
     (let sh = \<lparr>sh_vocab_size = pt_vocab_size s,
                sh_embedding_dim = pt_embedding_dim s,
                sh_hidden_dim = pt_hidden_dim s,
                sh_num_classes = num_classes\<rparr>
      in case init_params (pt_torch L) sh of
           Inl e \<Rightarrow> Inl e
         | Inr w \<Rightarrow> Inr \<lparr>net_shape = sh, net_params = w, net_training = True\<rparr>)"

text \<open>
  \<^verbatim>\<open>predict\<close> has no guard on \<^verbatim>\<open>_is_trained\<close>. Its first statement,
  \<^verbatim>\<open>self.model.eval()\<close>, raises \<^verbatim>\<open>AttributeError\<close> while \<^verbatim>\<open>self.model\<close> is \<^verbatim>\<open>None\<close>
  and otherwise switches the network to evaluation mode.
\<close>

definition pt_predict ::
  "('tk, 'w, 'a::{linorder, zero}, 'r) pt_lib \<Rightarrow> ('tk, 'w) pt_strategy \<Rightarrow> string list
     \<Rightarrow> nat list result \<times> ('tk, 'w) pt_strategy" where
  "pt_predict L s X =
     (case pt_model s of
        None \<Rightarrow> (Inl AttributeError, s)
      | Some m \<Rightarrow>
          let m = m\<lparr>net_training := False\<rparr>;
              s = s\<lparr>pt_model := Some m\<rparr>
          in (case texts_to_padded (pt_keras L) (pt_tokenizer s) (pt_max_len s) X of
                Inl e \<Rightarrow> (Inl e, s)
              | Inr X_pad \<Rightarrow>
                  (case forward (pt_torch L) m X_pad of
                     Inl e \<Rightarrow> (Inl e, s)
                   | Inr outputs \<Rightarrow> (torch_argmax outputs, s))))"

text \<open>
  \<^verbatim>\<open>train\<close>. The data loader and the ten epochs (lines 125 to 145) are the one step
  \<open>optimise\<close>; every epoch starts with \<^verbatim>\<open>self.model.train()\<close>, so the network is in
  training mode after it whether it raised or not.
\<close>

definition pt_train ::
  "('tk, 'w, 'a::{linorder, zero}, 'r) pt_lib \<Rightarrow> ('tk, 'w) pt_strategy
     \<Rightarrow> string list \<Rightarrow> string list \<Rightarrow> string list \<Rightarrow> string list
     \<Rightarrow> 'r metrics result \<times> ('tk, 'w) pt_strategy" where
  "pt_train L s X_train y_train X_test y_test =
     (let s = s\<lparr>pt_tokenizer := fit_on_texts (pt_keras L) (pt_tokenizer s) (X_train @ X_test)\<rparr>
      in (case texts_to_padded (pt_keras L) (pt_tokenizer s) (pt_max_len s) X_train of
           Inl e \<Rightarrow> (Inl e, s)
         | Inr X_train_seq \<Rightarrow>
        (case texts_to_padded (pt_keras L) (pt_tokenizer s) (pt_max_len s) X_test of
           Inl e \<Rightarrow> (Inl e, s)
         | Inr X_test_seq \<Rightarrow>
        (case fit_transform y_train of (classes, y_train_enc) \<Rightarrow>
         let s = s\<lparr>pt_label_encoder := Some classes\<rparr>
         in (case transform (pt_label_encoder s) y_test of
              Inl e \<Rightarrow> (Inl e, s)
            | Inr y_test_enc \<Rightarrow>
           (case pt_build_model L s (length classes) of
              Inl e \<Rightarrow> (Inl e, s)
            | Inr m \<Rightarrow>
                let s = s\<lparr>pt_model := Some m\<rparr>
                in (case optimise (pt_torch L) (net_shape m) (net_params m) X_train_seq y_train_enc of
                      (failure, w) \<Rightarrow>
                        let m = m\<lparr>net_params := w, net_training := True\<rparr>;
                            s = s\<lparr>pt_model := Some m\<rparr>
                        in (case failure of
                              Some e \<Rightarrow> (Inl e, s)
                            | None \<Rightarrow>
                                let s = s\<lparr>pt_is_trained := True\<rparr>
                                in (case pt_predict L s X_train of
                                      (Inl e, s) \<Rightarrow> (Inl e, s)
                                    | (Inr train_pred, s) \<Rightarrow>
                                   (case pt_predict L s X_test of
                                      (Inl e, s) \<Rightarrow> (Inl e, s)
                                    | (Inr test_pred, s) \<Rightarrow>
                                        (evaluate (pt_sklearn L)
                                           y_train_enc (map (JInt \<circ> int) train_pred)
                                           y_test_enc (map (JInt \<circ> int) test_pred)
                                           classes, s)))))))))))"

text \<open>
  \<^verbatim>\<open>torch.onnx.export(model, dummy_input, path, input_names, output_names,
  dynamic_axes, opset_version)\<close> for a module with one input and one output: the
  graph declares the given names; a tensor's dimensions are those traced from the dummy
  input (the output has the input's first dimension, then one entry per class), except
  the axes listed for its name, which are dynamic.
\<close>

definition mark_dynamic :: "(string \<times> nat list) list \<Rightarrow> string \<Rightarrow> int list \<Rightarrow> dim list" where
  "mark_dynamic dynamic_axes name dims =
     map (\<lambda>(k, d). if k \<in> set (case map_of dynamic_axes name of None \<Rightarrow> [] | Some axes \<Rightarrow> axes)
                    then Dyn else Fixed d)
         (zip [0..<length dims] dims)"

definition torch_onnx_export ::
  "'w net \<Rightarrow> int list \<Rightarrow> string \<Rightarrow> string \<Rightarrow> (string \<times> nat list) list \<Rightarrow> nat \<Rightarrow> onnx_graph" where
  "torch_onnx_export m dummy_shape input_name output_name dynamic_axes opset_version =
     \<lparr>graph_inputs = [(input_name, mark_dynamic dynamic_axes input_name dummy_shape)],
      graph_outputs =
        [(output_name,
          mark_dynamic dynamic_axes output_name
            (take 1 dummy_shape @ [int (sh_num_classes (net_shape m))]))],
      graph_opset = opset_version\<rparr>"

text \<open>
  \<^verbatim>\<open>export_to_onnx\<close>. \<^verbatim>\<open>torch.zeros(1, self.max_len)\<close> refuses a negative length. A
  failed export is taken to write nothing.
\<close>

definition pt_export_to_onnx ::
  "('tk, 'w, 'a, 'r) pt_lib \<Rightarrow> ('tk, 'w) pt_strategy \<Rightarrow> 'w fs
     \<Rightarrow> unit result \<times> ('tk, 'w) pt_strategy \<times> 'w fs" where
  "pt_export_to_onnx L s files =
     (let output_path = out_file (pt_output_path s) ''model.onnx''
      in if \<not> pt_is_trained s then
           (Inl (RuntimeError ''Model must be trained before exporting to ONNX''), s, files)
         else
           (case pt_model s of
              None \<Rightarrow> (Inl AttributeError, s, files)
            | Some m \<Rightarrow>
                let m = m\<lparr>net_training := False\<rparr>;
                    s = s\<lparr>pt_model := Some m\<rparr>
                in if pt_max_len s < 0 then (Inl (RuntimeError ''negative dimension''), s, files)
                   else
                     (case export_failure (pt_torch L) (net_shape m) (net_params m)
                             [1, pt_max_len s] of
                        Some msg \<Rightarrow> (Inl (LibraryError msg), s, files)
                      | None \<Rightarrow>
                          let g = torch_onnx_export m [1, pt_max_len s] ''input_ids'' ''output''
                                    [(''input_ids'', [0]), (''output'', [0])] 17
                          in (Inr (), s, files(output_path \<mapsto> OnnxFile g)))))"

definition pt_save_model ::
  "('tk, 'w, 'a, 'r) pt_lib \<Rightarrow> ('tk, 'w) pt_strategy \<Rightarrow> 'w fs
     \<Rightarrow> unit result \<times> ('tk, 'w) pt_strategy \<times> 'w fs" where
  "pt_save_model L s files =
     (if \<not> pt_is_trained s then (Inl (RuntimeError ''Cannot save untrained model''), s, files)
      else
        (case pt_model s of
           None \<Rightarrow> (Inl AttributeError, s, files)
         | Some m \<Rightarrow>
             let files = files(out_file (pt_output_path s) ''model.pt'' \<mapsto> ModelFile (net_params m));
                 files = files(out_file (pt_output_path s) ''vocab.json''
                                 \<mapsto> JsonFile (word_index (pt_tokenizer s)))
             in (case write_scaler (pt_label_encoder s)
                        (out_file (pt_output_path s) ''scaler.json'') files of
                   (Inl e, files) \<Rightarrow> (Inl e, s, files)
                 | (Inr _, files) \<Rightarrow> pt_export_to_onnx L s files)))"

text \<open>
  \<^verbatim>\<open>load_model\<close> builds the network from \<^verbatim>\<open>len(self.label_encoder.classes_)\<close> in its
  first statement, before any file is opened.
\<close>

definition pt_load_model ::
  "('tk, 'w, 'a, 'r) pt_lib \<Rightarrow> ('tk, 'w) pt_strategy \<Rightarrow> string \<Rightarrow> 'w fs
     \<Rightarrow> unit result \<times> ('tk, 'w) pt_strategy" where
  "pt_load_model L s filename_prefix files =
     (case pt_label_encoder s of
        None \<Rightarrow> (Inl AttributeError, s)
      | Some old_classes \<Rightarrow>
         (case pt_build_model L s (length old_classes) of
            Inl e \<Rightarrow> (Inl e, s)
          | Inr m \<Rightarrow>
          let s = s\<lparr>pt_model := Some m\<rparr>
          in (case read_model files (models_file filename_prefix ''model.pt'') of
                Inl e \<Rightarrow> (Inl e, s)
              | Inr state_dict \<Rightarrow>
                 (case load_state_dict (pt_torch L) (net_shape m) (net_params m) state_dict of
                    (failure, w) \<Rightarrow>
                      let s = s\<lparr>pt_model := Some (m\<lparr>net_params := w\<rparr>)\<rparr>
                      in (case failure of
                            Some e \<Rightarrow> (Inl e, s)
                          | None \<Rightarrow>
                         (case json_load files (models_file filename_prefix ''vocab.json'') of
                            Inl e \<Rightarrow> (Inl e, s)
                          | Inr vocab \<Rightarrow>
                              let s = s\<lparr>pt_tokenizer := (pt_tokenizer s)\<lparr>word_index := vocab\<rparr>\<rparr>
                              in (case json_load files (models_file filename_prefix ''scaler.json'') of
                                    Inl e \<Rightarrow> (Inl e, s)
                                  | Inr classes \<Rightarrow>
                                     (case labels_of_json classes of
                                        Inl e \<Rightarrow> (Inl e, s)
                                      | Inr labels \<Rightarrow>
                                          (Inr (), s\<lparr>pt_label_encoder := Some (np_array labels),
                                                     pt_is_trained := True\<rparr>)))))))))"

section \<open>TensorFlowLSTMStrategy\<close>

text \<open>
  A Keras model is known here by the names of its input and output layers, the size of
  its output layer and its weights, of an arbitrary type \<open>'k\<close>. The construction of
  the layers with their initial weights (which may raise), \<^verbatim>\<open>Model.fit\<close>,
  \<^verbatim>\<open>Model.predict\<close> and whether the conversion to a graph raises are the library's.
\<close>

record 'k keras_model =
  km_input_name :: string
  km_output_name :: string
  km_num_classes :: nat
  km_weights :: 'k

record ('k, 'a) keras_lib =
  new_weights :: "int \<Rightarrow> int \<Rightarrow> nat \<Rightarrow> 'k result"
  model_fit :: "'k keras_model \<Rightarrow> int list list \<Rightarrow> nat list \<Rightarrow> int list list \<Rightarrow> nat list
                  \<Rightarrow> error option \<times> 'k"
  model_predict :: "'k keras_model \<Rightarrow> int list list \<Rightarrow> 'a list list result"
  conversion_failure :: "'k keras_model \<Rightarrow> string \<times> dim list \<Rightarrow> string option"

record ('tk, 'k) tf_strategy =
  tf_vocab_size :: int
  tf_max_len :: int
  tf_tokenizer :: "'tk tokenizer"
  tf_label_encoder :: label_encoder
  tf_model :: "'k keras_model option"
  tf_is_trained :: bool
  tf_output_path :: "string option"

record ('tk, 'k, 'a, 'r) tf_lib =
  tf_keras_text :: "'tk tokenizer_lib"
  tf_keras :: "('k, 'a) keras_lib"
  tf_sklearn :: "'r metrics_lib"

definition tf_init ::
  "('tk, 'k, 'a, 'r) tf_lib \<Rightarrow> int \<Rightarrow> int \<Rightarrow> string option \<Rightarrow> ('tk, 'k) tf_strategy" where
  "tf_init L vocab_size max_len output_path =
     \<lparr>tf_vocab_size = vocab_size,
      tf_max_len = max_len,
      tf_tokenizer = Tokenizer (tf_keras_text L) vocab_size ''<OOV>'',
      tf_label_encoder = None,
      tf_model = None,
      tf_is_trained = False,
      tf_output_path = output_path\<rparr>"

definition tf_build_model ::
  "('tk, 'k, 'a, 'r) tf_lib \<Rightarrow> ('tk, 'k) tf_strategy \<Rightarrow> nat \<Rightarrow> 'k keras_model result" where
  "tf_build_model L s num_classes =
     (case new_weights (tf_keras L) (tf_vocab_size s) (tf_max_len s) num_classes of
        Inl e \<Rightarrow> Inl e
      | Inr w \<Rightarrow>
          Inr \<lparr>km_input_name = ''input'',
               km_output_name = ''output'',
               km_num_classes = num_classes,
               km_weights = w\<rparr>)"

text \<open>\<^verbatim>\<open>np.argmax(self.model.predict(X), axis=1)\<close>, as \<^verbatim>\<open>train\<close> and \<^verbatim>\<open>predict\<close> write it.\<close>

definition tf_classify ::
  "('tk, 'k, 'a::linorder, 'r) tf_lib \<Rightarrow> 'k keras_model option \<Rightarrow> int list list \<Rightarrow> nat list result" where
  "tf_classify L model X_seq =
     (case model of
        None \<Rightarrow> Inl AttributeError
      | Some m \<Rightarrow>
          (case model_predict (tf_keras L) m X_seq of
             Inl e \<Rightarrow> Inl e
           | Inr p \<Rightarrow> np_argmax p))"

text \<open>\<^verbatim>\<open>predict\<close> takes sequences that are padded already, and has no guard.\<close>

definition tf_predict ::
  "('tk, 'k, 'a::linorder, 'r) tf_lib \<Rightarrow> ('tk, 'k) tf_strategy \<Rightarrow> int list list
     \<Rightarrow> nat list result \<times> ('tk, 'k) tf_strategy" where
  "tf_predict L s X_seq = (tf_classify L (tf_model s) X_seq, s)"

definition tf_train ::
  "('tk, 'k, 'a::linorder, 'r) tf_lib \<Rightarrow> ('tk, 'k) tf_strategy
     \<Rightarrow> string list \<Rightarrow> string list \<Rightarrow> string list \<Rightarrow> string list
     \<Rightarrow> 'r metrics result \<times> ('tk, 'k) tf_strategy" where
  "tf_train L s X_train y_train X_test y_test =
     (let s = s\<lparr>tf_tokenizer := fit_on_texts (tf_keras_text L) (tf_tokenizer s) (X_train @ X_test)\<rparr>
      in (case texts_to_padded (tf_keras_text L) (tf_tokenizer s) (tf_max_len s) X_train of
           Inl e \<Rightarrow> (Inl e, s)
         | Inr X_train_seq \<Rightarrow>
        (case texts_to_padded (tf_keras_text L) (tf_tokenizer s) (tf_max_len s) X_test of
           Inl e \<Rightarrow> (Inl e, s)
         | Inr X_test_seq \<Rightarrow>
        (case fit_transform y_train of (classes, y_train_enc) \<Rightarrow>
         let s = s\<lparr>tf_label_encoder := Some classes\<rparr>
         in (case transform (tf_label_encoder s) y_test of
              Inl e \<Rightarrow> (Inl e, s)
            | Inr y_test_enc \<Rightarrow>
           (case tf_build_model L s (length classes) of
              Inl e \<Rightarrow> (Inl e, s)
            | Inr m \<Rightarrow>
                let s = s\<lparr>tf_model := Some m\<rparr>
                in (case model_fit (tf_keras L) m X_train_seq y_train_enc X_test_seq y_test_enc of
                      (failure, w) \<Rightarrow>
                        let m = m\<lparr>km_weights := w\<rparr>;
                            s = s\<lparr>tf_model := Some m\<rparr>
                        in (case failure of
                              Some e \<Rightarrow> (Inl e, s)
                            | None \<Rightarrow>
                                let s = s\<lparr>tf_is_trained := True\<rparr>
                                in (case tf_classify L (tf_model s) X_train_seq of
                                      Inl e \<Rightarrow> (Inl e, s)
                                    | Inr train_pred \<Rightarrow>
                                   (case tf_classify L (tf_model s) X_test_seq of
                                      Inl e \<Rightarrow> (Inl e, s)
                                    | Inr test_pred \<Rightarrow>
                                        (evaluate (tf_sklearn L)
                                           y_train_enc (map (JInt \<circ> int) train_pred)
                                           y_test_enc (map (JInt \<circ> int) test_pred)
                                           classes, s)))))))))))"

text \<open>
  \<^verbatim>\<open>tf2onnx.convert.from_keras(model, input_signature=spec, opset=17)\<close>: the graph's
  input has the name and the shape of the \<^verbatim>\<open>TensorSpec\<close> (\<^verbatim>\<open>None\<close> is a dynamic
  dimension), its output the name of the model's output layer.
\<close>

definition from_keras :: "'k keras_model \<Rightarrow> string \<times> dim list \<Rightarrow> nat \<Rightarrow> onnx_graph" where
  "from_keras m input_signature opset =
     \<lparr>graph_inputs = [input_signature],
      graph_outputs = [(km_output_name m, [Dyn, Fixed (int (km_num_classes m))])],
      graph_opset = opset\<rparr>"

text \<open>
  \<^verbatim>\<open>export_to_onnx\<close>. \<^verbatim>\<open>tf.TensorSpec((None, self.max_len), ...)\<close> refuses a negative
  length. A failed conversion writes nothing: the file is opened after it.
\<close>

definition tf_export_to_onnx ::
  "('tk, 'k, 'a, 'r) tf_lib \<Rightarrow> ('tk, 'k) tf_strategy \<Rightarrow> 'k keras_model fs
     \<Rightarrow> unit result \<times> ('tk, 'k) tf_strategy \<times> 'k keras_model fs" where
  "tf_export_to_onnx L s files =
     (let output_path = out_file (tf_output_path s) ''model.onnx''
      in if \<not> tf_is_trained s then
           (Inl (RuntimeError ''Model must be trained before exporting to ONNX''), s, files)
         else if tf_max_len s < 0 then (Inl ValueError, s, files)
         else
           (let spec = (''input'', [Dyn, Fixed (tf_max_len s)])
            in (case tf_model s of
                  None \<Rightarrow> (Inl AttributeError, s, files)
                | Some m \<Rightarrow>
                   (case conversion_failure (tf_keras L) m spec of
                      Some msg \<Rightarrow> (Inl (LibraryError msg), s, files)
                    | None \<Rightarrow>
                        (Inr (), s, files(output_path \<mapsto> OnnxFile (from_keras m spec 17)))))))"

definition tf_save_model ::
  "('tk, 'k, 'a, 'r) tf_lib \<Rightarrow> ('tk, 'k) tf_strategy \<Rightarrow> 'k keras_model fs
     \<Rightarrow> unit result \<times> ('tk, 'k) tf_strategy \<times> 'k keras_model fs" where
  "tf_save_model L s files =
     (if \<not> tf_is_trained s then (Inl (RuntimeError ''Cannot save untrained model''), s, files)
      else
        (case tf_model s of
           None \<Rightarrow> (Inl AttributeError, s, files)
         | Some m \<Rightarrow>
             let files = files(out_file (tf_output_path s) ''model.h5'' \<mapsto> ModelFile m);
                 files = files(out_file (tf_output_path s) ''vocab.json''
                                 \<mapsto> JsonFile (word_index (tf_tokenizer s)))
             in (case write_scaler (tf_label_encoder s)
                        (out_file (tf_output_path s) ''scaler.json'') files of
                   (Inl e, files) \<Rightarrow> (Inl e, s, files)
                 | (Inr _, files) \<Rightarrow> tf_export_to_onnx L s files)))"

definition tf_load_model ::
  "('tk, 'k, 'a, 'r) tf_lib \<Rightarrow> ('tk, 'k) tf_strategy \<Rightarrow> string \<Rightarrow> 'k keras_model fs
     \<Rightarrow> unit result \<times> ('tk, 'k) tf_strategy" where
  "tf_load_model L s filename_prefix files =
     (case keras_load_model files (models_file filename_prefix ''model.h5'') of
        Inl e \<Rightarrow> (Inl e, s)
      | Inr m \<Rightarrow>
          let s = s\<lparr>tf_model := Some m\<rparr>
          in (case json_load files (models_file filename_prefix ''vocab.json'') of
                Inl e \<Rightarrow> (Inl e, s)
              | Inr vocab \<Rightarrow>
                  let s = s\<lparr>tf_tokenizer := (tf_tokenizer s)\<lparr>word_index := vocab\<rparr>\<rparr>
                  in (case json_load files (models_file filename_prefix ''scaler.json'') of
                        Inl e \<Rightarrow> (Inl e, s)
                      | Inr classes \<Rightarrow>
                         (case labels_of_json classes of
                            Inl e \<Rightarrow> (Inl e, s)
                          | Inr labels \<Rightarrow>
                              (Inr (), s\<lparr>tf_label_encoder := Some (np_array labels),
                                         tf_is_trained := True\<rparr>)))))"

section \<open>ScikitLearnTFIDFStrategy\<close>

text \<open>
  The pipeline is a \<^verbatim>\<open>TfidfVectorizer\<close> and a \<^verbatim>\<open>LogisticRegression\<close>. Of its fitted
  state the model names the vectorizer's \<^verbatim>\<open>vocabulary_\<close>, which the strategy reads and
  assigns, and the classifier's \<^verbatim>\<open>classes_\<close>; the rest (weights, settings) is a value
  of an arbitrary type \<open>'p\<close>. The library's fitting returns the pipeline as it leaves it,
  with its exception if it raised. A fitted classifier predicts, for every sample, the
  entry of \<^verbatim>\<open>classes_\<close> at the index its decision function selects; the selection is
  the library's. \<^verbatim>\<open>LogisticRegression.fit(X, y)\<close> sets \<^verbatim>\<open>classes_ = np.unique(y)\<close>.
  \<^verbatim>\<open>Pipeline.predict\<close> refuses an empty list of samples: the vectorizer turns it
  into a matrix without rows, which the classifier's input validation rejects
  (\<^verbatim>\<open>ValueError\<close>), unless one of the two steps is not fitted, which is found first.

  The graph converter declares the outputs of the graph and its opset: skl2onnx stamps
  the highest operator version the graph uses, \<^verbatim>\<open>target_opset\<close> being the upper bound
  it is given.
\<close>

record 'p pipeline =
  pl_vocabulary :: "jdict option"
  pl_classes :: "jval list option"
  pl_rest :: 'p

record 'p sklearn_lib =
  new_pipeline :: "int \<Rightarrow> 'p"
  fit_pipeline :: "'p pipeline \<Rightarrow> string list \<Rightarrow> nat list \<Rightarrow> error option \<times> 'p pipeline"
  decide :: "'p pipeline \<Rightarrow> string \<Rightarrow> nat result"
  int_of_string :: "string \<Rightarrow> int option"
  converter_outputs :: "'p pipeline \<Rightarrow> (string \<times> dim list) list"
  converter_opset :: "'p pipeline \<Rightarrow> nat \<Rightarrow> nat"
  converter_failure :: "'p pipeline \<Rightarrow> string option"

definition Pipeline :: "'p sklearn_lib \<Rightarrow> int \<Rightarrow> 'p pipeline" where
  "Pipeline S max_features =
     \<lparr>pl_vocabulary = None, pl_classes = None, pl_rest = new_pipeline S max_features\<rparr>"

definition pipeline_fit ::
  "'p sklearn_lib \<Rightarrow> 'p pipeline \<Rightarrow> string list \<Rightarrow> nat list \<Rightarrow> error option \<times> 'p pipeline" where
  "pipeline_fit S pl X y =
     (case fit_pipeline S pl X y of
        (Some e, pl) \<Rightarrow> (Some e, pl)
      | (None, pl) \<Rightarrow> (None, pl\<lparr>pl_classes := Some (map (JInt \<circ> int) (np_unique y))\<rparr>))"

definition pipeline_predict :: "'p sklearn_lib \<Rightarrow> 'p pipeline \<Rightarrow> string list \<Rightarrow> jval list result" where
  "pipeline_predict S pl X =
     (if X = [] then
        (if pl_vocabulary pl = None \<or> pl_classes pl = None then Inl NotFittedError
         else Inl ValueError)
      else
        (case map_result (decide S pl) X of
           Inl e \<Rightarrow> Inl e
         | Inr indices \<Rightarrow>
             (case pl_classes pl of
                None \<Rightarrow> Inl NotFittedError
              | Some classes \<Rightarrow>
                  map_result (\<lambda>i. if i < length classes then Inr (classes ! i) else Inl IndexError)
                    indices)))"

record 'p sk_strategy =
  sk_max_features :: int
  sk_max_len :: int
  sk_pipeline :: "'p pipeline"
  sk_label_encoder :: label_encoder
  sk_is_trained :: bool
  sk_output_path :: "string option"

record ('p, 'r) sk_lib =
  sk_sklearn :: "'p sklearn_lib"
  sk_metrics :: "'r metrics_lib"

definition sk_init :: "('p, 'r) sk_lib \<Rightarrow> int \<Rightarrow> string option \<Rightarrow> 'p sk_strategy" where
  "sk_init L max_features output_path =
     \<lparr>sk_max_features = max_features,
      sk_max_len = max_features,
      sk_pipeline = Pipeline (sk_sklearn L) max_features,
      sk_label_encoder = None,
      sk_is_trained = False,
      sk_output_path = output_path\<rparr>"

text \<open>The pipeline is fitted on the encoded labels \<^verbatim>\<open>y_train_enc\<close>.\<close>

definition sk_train ::
  "('p, 'r) sk_lib \<Rightarrow> 'p sk_strategy \<Rightarrow> string list \<Rightarrow> string list \<Rightarrow> string list \<Rightarrow> string list
     \<Rightarrow> 'r metrics result \<times> 'p sk_strategy" where
  "sk_train L s X_train y_train X_test y_test =
     (case fit_transform y_train of (classes, y_train_enc) \<Rightarrow>
      let s = s\<lparr>sk_label_encoder := Some classes\<rparr>
      in (case transform (sk_label_encoder s) y_test of
           Inl e \<Rightarrow> (Inl e, s)
         | Inr y_test_enc \<Rightarrow>
        (case pipeline_fit (sk_sklearn L) (sk_pipeline s) X_train y_train_enc of
           (failure, pl) \<Rightarrow>
             let s = s\<lparr>sk_pipeline := pl\<rparr>
             in (case failure of
                   Some e \<Rightarrow> (Inl e, s)
                 | None \<Rightarrow>
                     let s = s\<lparr>sk_is_trained := True\<rparr>
                     in (case pipeline_predict (sk_sklearn L) (sk_pipeline s) X_train of
                           Inl e \<Rightarrow> (Inl e, s)
                         | Inr train_pred \<Rightarrow>
                        (case pipeline_predict (sk_sklearn L) (sk_pipeline s) X_test of
                           Inl e \<Rightarrow> (Inl e, s)
                         | Inr test_pred \<Rightarrow>
                             (evaluate (sk_metrics L) y_train_enc train_pred
                                y_test_enc test_pred classes, s)))))))"

definition sk_predict ::
  "('p, 'r) sk_lib \<Rightarrow> 'p sk_strategy \<Rightarrow> string list \<Rightarrow> jval list result \<times> 'p sk_strategy" where
  "sk_predict L s X =
     (if \<not> sk_is_trained s then (Inl (RuntimeError ''Model must be trained before predicting''), s)
      else (pipeline_predict (sk_sklearn L) (sk_pipeline s) X, s))"

text \<open>
  \<^verbatim>\<open>convert_sklearn(self.pipeline, initial_types=[("input", StringTensorType([None]))],
  target_opset=17)\<close>: the graph's input is the one initial type. The call names no
  output (\<^verbatim>\<open>final_types\<close> is not given), so the outputs are the ones the converter
  declares for the pipeline, and the opset is the one it stamps when it is given
  \<^verbatim>\<open>target_opset\<close> as the bound. Whether the conversion raises is the library's; a
  failed conversion writes nothing: the file is opened after it.
\<close>

definition convert_sklearn ::
  "'p sklearn_lib \<Rightarrow> 'p pipeline \<Rightarrow> (string \<times> dim list) list \<Rightarrow> nat \<Rightarrow> onnx_graph" where
  "convert_sklearn S pl initial_types target_opset =
     \<lparr>graph_inputs = initial_types,
      graph_outputs = converter_outputs S pl,
      graph_opset = converter_opset S pl target_opset\<rparr>"

definition sk_export_to_onnx ::
  "('p, 'r) sk_lib \<Rightarrow> 'p sk_strategy \<Rightarrow> 'p pipeline fs
     \<Rightarrow> unit result \<times> 'p sk_strategy \<times> 'p pipeline fs" where
  "sk_export_to_onnx L s files =
     (let output_path = out_file (sk_output_path s) ''model.onnx''
      in if \<not> sk_is_trained s then
           (Inl (RuntimeError ''Model must be trained before exporting to ONNX''), s, files)
         else
           (let initial_type = [(''input'', [Dyn])]
            in (case converter_failure (sk_sklearn L) (sk_pipeline s) of
                  Some msg \<Rightarrow> (Inl (LibraryError msg), s, files)
                | None \<Rightarrow>
                    let onnx_model = convert_sklearn (sk_sklearn L) (sk_pipeline s) initial_type 17
                    in (Inr (), s, files(output_path \<mapsto> OnnxFile onnx_model)))))"

text \<open>
  \<^verbatim>\<open>int(v)\<close> on an entry of the vocabulary. On a string Python parses it (the parser
  is a parameter) and raises \<^verbatim>\<open>ValueError\<close> when the string is no integer literal.
\<close>

definition py_int :: "'p sklearn_lib \<Rightarrow> jval \<Rightarrow> int result" where
  "py_int S v =
     (case v of
        JInt i \<Rightarrow> Inr i
      | JStr t \<Rightarrow> (case int_of_string S t of None \<Rightarrow> Inl ValueError | Some i \<Rightarrow> Inr i))"

text \<open>
  \<^verbatim>\<open>save_model\<close> builds the dictionary \<^verbatim>\<open>vocab\<close> before it opens \<^verbatim>\<open>vocab.json\<close>, so a
  failure there leaves only \<^verbatim>\<open>model.pkl\<close> written.
\<close>

definition sk_save_model ::
  "('p, 'r) sk_lib \<Rightarrow> 'p sk_strategy \<Rightarrow> 'p pipeline fs
     \<Rightarrow> unit result \<times> 'p sk_strategy \<times> 'p pipeline fs" where
  "sk_save_model L s files =
     (if \<not> sk_is_trained s then (Inl (RuntimeError ''Cannot save untrained model''), s, files)
      else
        (let files = files(out_file (sk_output_path s) ''model.pkl'' \<mapsto> ModelFile (sk_pipeline s))
         in (case pl_vocabulary (sk_pipeline s) of
               None \<Rightarrow> (Inl AttributeError, s, files)
             | Some vocabulary \<Rightarrow>
                (case map_result (\<lambda>(k, v). case py_int (sk_sklearn L) v of
                                             Inl e \<Rightarrow> Inl e
                                           | Inr i \<Rightarrow> Inr (k, JInt i)) vocabulary of
                   Inl e \<Rightarrow> (Inl e, s, files)
                 | Inr vocab \<Rightarrow>
                     let files = files(out_file (sk_output_path s) ''vocab.json'' \<mapsto> JsonFile vocab)
                     in (case write_scaler (sk_label_encoder s)
                                (out_file (sk_output_path s) ''scaler.json'') files of
                           (Inl e, files) \<Rightarrow> (Inl e, s, files)
                         | (Inr _, files) \<Rightarrow> sk_export_to_onnx L s files)))))"

definition sk_load_model ::
  "('p, 'r) sk_lib \<Rightarrow> 'p sk_strategy \<Rightarrow> string \<Rightarrow> 'p pipeline fs
     \<Rightarrow> unit result \<times> 'p sk_strategy" where
  "sk_load_model L s filename_prefix files =
     (case read_model files (models_file filename_prefix ''model.pkl'') of
        Inl e \<Rightarrow> (Inl e, s)
      | Inr pl \<Rightarrow>
          let s = s\<lparr>sk_pipeline := pl\<rparr>
          in (case json_load files (models_file filename_prefix ''vocab.json'') of
                Inl e \<Rightarrow> (Inl e, s)
              | Inr vocab \<Rightarrow>
                  let s = s\<lparr>sk_pipeline := (sk_pipeline s)\<lparr>pl_vocabulary := Some vocab\<rparr>\<rparr>
                  in (case json_load files (models_file filename_prefix ''scaler.json'') of
                        Inl e \<Rightarrow> (Inl e, s)
                      | Inr classes \<Rightarrow>
                         (case labels_of_json classes of
                            Inl e \<Rightarrow> (Inl e, s)
                          | Inr labels \<Rightarrow>
                              (Inr (), s\<lparr>sk_label_encoder := Some (np_array labels),
                                         sk_is_trained := True\<rparr>)))))"

section \<open>Sequences of calls\<close>

text \<open>
  A caller holds one instance and calls its methods one after the other, whatever each
  call returns or raises. A call's outcome is dropped here; the instance and the file
  system are handed to the next call.
\<close>

datatype pt_call =
    PtTrain "string list" "string list" "string list" "string list"
  | PtPredict "string list"
  | PtSaveModel
  | PtLoadModel string
  | PtExportToOnnx

fun pt_do ::
  "('tk, 'w, 'a::{linorder, zero}, 'r) pt_lib \<Rightarrow> ('tk, 'w) pt_strategy \<times> 'w fs \<Rightarrow> pt_call
     \<Rightarrow> ('tk, 'w) pt_strategy \<times> 'w fs" where
  "pt_do L (s, files) (PtTrain X_train y_train X_test y_test) =
     (snd (pt_train L s X_train y_train X_test y_test), files)"
| "pt_do L (s, files) (PtPredict X) = (snd (pt_predict L s X), files)"
| "pt_do L (s, files) PtSaveModel = snd (pt_save_model L s files)"
| "pt_do L (s, files) (PtLoadModel filename_prefix) =
     (snd (pt_load_model L s filename_prefix files), files)"
| "pt_do L (s, files) PtExportToOnnx = snd (pt_export_to_onnx L s files)"

datatype tf_call =
    TfTrain "string list" "string list" "string list" "string list"
  | TfPredict "int list list"
  | TfSaveModel
  | TfLoadModel string
  | TfExportToOnnx

fun tf_do ::
  "('tk, 'k, 'a::linorder, 'r) tf_lib \<Rightarrow> ('tk, 'k) tf_strategy \<times> 'k keras_model fs \<Rightarrow> tf_call
     \<Rightarrow> ('tk, 'k) tf_strategy \<times> 'k keras_model fs" where
  "tf_do L (s, files) (TfTrain X_train y_train X_test y_test) =
     (snd (tf_train L s X_train y_train X_test y_test), files)"
| "tf_do L (s, files) (TfPredict X_seq) = (snd (tf_predict L s X_seq), files)"
| "tf_do L (s, files) TfSaveModel = snd (tf_save_model L s files)"
| "tf_do L (s, files) (TfLoadModel filename_prefix) =
     (snd (tf_load_model L s filename_prefix files), files)"
| "tf_do L (s, files) TfExportToOnnx = snd (tf_export_to_onnx L s files)"

datatype sk_call =
    SkTrain "string list" "string list" "string list" "string list"
  | SkPredict "string list"
  | SkSaveModel
  | SkLoadModel string
  | SkExportToOnnx

fun sk_do ::
  "('p, 'r) sk_lib \<Rightarrow> 'p sk_strategy \<times> 'p pipeline fs \<Rightarrow> sk_call
     \<Rightarrow> 'p sk_strategy \<times> 'p pipeline fs" where
  "sk_do L (s, files) (SkTrain X_train y_train X_test y_test) =
     (snd (sk_train L s X_train y_train X_test y_test), files)"
| "sk_do L (s, files) (SkPredict X) = (snd (sk_predict L s X), files)"
| "sk_do L (s, files) SkSaveModel = snd (sk_save_model L s files)"
| "sk_do L (s, files) (SkLoadModel filename_prefix) =
     (snd (sk_load_model L s filename_prefix files), files)"
| "sk_do L (s, files) SkExportToOnnx = snd (sk_export_to_onnx L s files)"

section \<open>Executable instances of the library parameters\<close>

text \<open>
  The theorems below hold for every choice of the library parameters. To run the
  strategies on concrete inputs, this section fixes one choice: the Keras tokenizer as
  the library defines it (for ASCII text), and small deterministic stand-ins for the
  numerical libraries.
\<close>

subsection \<open>The Keras tokenizer\<close>

text \<open>
  \<^verbatim>\<open>text_to_word_sequence\<close> lower-cases the text, replaces every character of
  \<^verbatim>\<open>filters\<close> (the punctuation but the apostrophe, tab and newline) by a space,
  splits at spaces and drops the empty words.
\<close>

definition lower :: "char \<Rightarrow> char" where
  "lower c = (let n = (of_char c :: nat) in if 65 \<le> n \<and> n \<le> 90 then char_of (n + 32) else c)"

definition filters :: "char list" where
  "filters = map char_of [33, 34, 35, 36, 37, 38, 40, 41, 42, 43, 44, 45, 46, 47, 58, 59, 60, 61,
                          62, 63, 64, 91, 92, 93, 94, 95, 96, 123, 124, 125, 126, 9, 10 :: nat]"

fun split_spaces :: "string \<Rightarrow> string \<Rightarrow> string list" where
  "split_spaces w [] = [rev w]"
| "split_spaces w (c # cs) =
     (if c = CHR '' '' then rev w # split_spaces [] cs else split_spaces (c # w) cs)"

definition text_to_word_sequence :: "string \<Rightarrow> string list" where
  "text_to_word_sequence input_text =
     filter (\<lambda>w. w \<noteq> [])
       (split_spaces []
          (map (\<lambda>c. if c \<in> set filters then CHR '' '' else c) (map lower input_text)))"

record keras_tk =
  num_words :: int
  oov_token :: string
  word_counts :: "(string \<times> nat) list"

text \<open>\<^verbatim>\<open>self.word_counts[w] += 1\<close>, or \<^verbatim>\<open>= 1\<close> for a new word, which goes last.\<close>

fun count_word :: "string \<Rightarrow> (string \<times> nat) list \<Rightarrow> (string \<times> nat) list" where
  "count_word w [] = [(w, 1)]"
| "count_word w ((w', c) # rest) =
     (if w' = w then (w', c + 1) # rest else (w', c) # count_word w rest)"

text \<open>
  \<^verbatim>\<open>fit_on_texts\<close> counts the words of every text, sorts the words by falling count
  (a stable sort) and numbers them from 2, after the out-of-vocabulary token at 1.
\<close>

definition keras_fit_on_texts :: "keras_tk tokenizer \<Rightarrow> string list \<Rightarrow> keras_tk tokenizer" where
  "keras_fit_on_texts tok texts =
     (let counts = foldl (\<lambda>cs w. count_word w cs) (word_counts (tk_state tok))
                     (concat (map text_to_word_sequence texts));
          wcounts = sort_key (\<lambda>wc. - int (snd wc)) counts;
          sorted_voc = oov_token (tk_state tok) # map fst wcounts
      in \<lparr>word_index = zip sorted_voc (map (JInt \<circ> int) [1..<length sorted_voc + 1]),
          tk_state = (tk_state tok)\<lparr>word_counts := counts\<rparr>\<rparr>)"

text \<open>
  \<^verbatim>\<open>texts_to_sequences\<close>: a word with an index below \<^verbatim>\<open>num_words\<close> gives that
  index, any other word the index of the out-of-vocabulary token. An entry of
  \<^verbatim>\<open>word_index\<close> that is no integer, or a missing entry for the out-of-vocabulary
  token when it is needed, ends in a failed conversion to an integer array.
\<close>

definition word_to_index :: "keras_tk tokenizer \<Rightarrow> string \<Rightarrow> int result" where
  "word_to_index tok w =
     (let oov_token_index = map_of (word_index tok) (oov_token (tk_state tok));
          n = num_words (tk_state tok);
          oov = (case oov_token_index of Some (JInt j) \<Rightarrow> Inr j | _ \<Rightarrow> Inl TypeError)
      in case map_of (word_index tok) w of
           Some (JInt i) \<Rightarrow> if n \<noteq> 0 \<and> i \<ge> n then oov else Inr i
         | Some (JStr _) \<Rightarrow> Inl TypeError
         | None \<Rightarrow> oov)"

definition keras_texts_to_sequences :: "keras_tk tokenizer \<Rightarrow> string list \<Rightarrow> int list list result" where
  "keras_texts_to_sequences tok texts =
     map_result (\<lambda>text. map_result (word_to_index tok) (text_to_word_sequence text)) texts"

definition keras_text :: "keras_tk tokenizer_lib" where
  "keras_text =
     \<lparr>new_tokenizer = (\<lambda>n oov. \<lparr>num_words = n, oov_token = oov, word_counts = []\<rparr>),
      fit_on_texts = keras_fit_on_texts,
      texts_to_sequences = keras_texts_to_sequences\<rparr>"

subsection \<open>Stand-ins for the numerical libraries\<close>

text \<open>
  A toy network over integers whose parameters are its shape: the embedding of a token
  is the token, the recurrent layer returns its input, the linear layers pick the class
  \<open>sum x mod num_classes\<close>. Construction needs a positive vocabulary size.
  Optimisation changes nothing; a state dict is accepted when its shape is the
  module's; the export fails on a dummy input with no entry.
\<close>

definition one_hot :: "nat \<Rightarrow> int list \<Rightarrow> int list" where
  "one_hot n x = map (\<lambda>c. if int c = sum_list x mod int n then 1 else 0) [0..<n]"

definition toy_torch :: "(shape, int) torch_lib" where
  "toy_torch =
     \<lparr>init_params = (\<lambda>sh. if sh_vocab_size sh \<le> 0 then Inl ValueError else Inr sh),
      embedding = (\<lambda>w i. [i]),
      lstm = (\<lambda>w x. Inr x),
      dropout_mask = (\<lambda>x. map (map (\<lambda>_. 0)) x),
      fc1 = (\<lambda>w x. x),
      fc2 = (\<lambda>w x. one_hot (sh_num_classes w) x),
      optimise = (\<lambda>sh w X y. (None, w)),
      load_state_dict = (\<lambda>sh w state_dict.
         if state_dict = sh then (None, state_dict)
         else (Some (RuntimeError ''size mismatch''), w)),
      export_failure = (\<lambda>sh w dummy_shape.
         if 0 \<in> set dummy_shape then Some ''empty sequence'' else None)\<rparr>"

text \<open>Accuracy as the pair of the number of hits and the number of samples.\<close>

definition toy_metrics :: "(nat \<times> nat) metrics_lib" where
  "toy_metrics =
     \<lparr>accuracy_score = (\<lambda>y_true y_pred.
         if length y_true \<noteq> length y_pred then Inl ValueError
         else Inr (length (filter (\<lambda>(a, b). JInt (int a) = b) (zip y_true y_pred)), length y_true)),
      classification_report = (\<lambda>y_true y_pred target_names.
         if length y_true \<noteq> length y_pred then Inl ValueError
         else Inr (length target_names, length y_true))\<rparr>"

definition toy_keras :: "(unit, int) keras_lib" where
  "toy_keras =
     \<lparr>new_weights = (\<lambda>vocab_size max_len num_classes.
         if vocab_size \<le> 0 then Inl ValueError else Inr ()),
      model_fit = (\<lambda>m X y X_val y_val. (None, ())),
      model_predict = (\<lambda>m X. Inr (map (one_hot (km_num_classes m)) X)),
      conversion_failure = (\<lambda>m spec. None)\<rparr>"

text \<open>
  A toy pipeline: fitting needs two classes, as \<^verbatim>\<open>LogisticRegression\<close> does, and
  numbers the distinct words of the samples; the decision is the number of characters
  of the sample modulo the number of classes. No string is taken for an integer
  literal. The converter's outputs are the two skl2onnx declares for a classifier, and
  its graph uses no operator newer than opset 16.
\<close>

definition toy_fit_pipeline ::
  "unit pipeline \<Rightarrow> string list \<Rightarrow> nat list \<Rightarrow> error option \<times> unit pipeline" where
  "toy_fit_pipeline pl X y =
     (let terms = np_unique (concat (map text_to_word_sequence X));
          pl = pl\<lparr>pl_vocabulary := Some (zip terms (map (JInt \<circ> int) [0..<length terms]))\<rparr>
      in if length (np_unique y) < 2 then (Some ValueError, pl) else (None, pl))"

definition toy_decide :: "unit pipeline \<Rightarrow> string \<Rightarrow> nat result" where
  "toy_decide pl x =
     (case pl_classes pl of
        None \<Rightarrow> Inl NotFittedError
      | Some classes \<Rightarrow> if classes = [] then Inl NotFittedError else Inr (length x mod length classes))"

definition toy_sklearn :: "unit sklearn_lib" where
  "toy_sklearn =
     \<lparr>new_pipeline = (\<lambda>max_features. ()),
      fit_pipeline = toy_fit_pipeline,
      decide = toy_decide,
      int_of_string = (\<lambda>t. None),
      converter_outputs = (\<lambda>pl. [(''output_label'', [Dyn]), (''output_probability'', [])]),
      converter_opset = (\<lambda>pl target_opset. min target_opset 16),
      converter_failure = (\<lambda>pl. case pl_classes pl of None \<Rightarrow> Some ''not fitted'' | Some _ \<Rightarrow> None)\<rparr>"

definition toy_pt :: "(keras_tk, shape, int, nat \<times> nat) pt_lib" where
  "toy_pt = \<lparr>pt_keras = keras_text, pt_torch = toy_torch, pt_sklearn = toy_metrics\<rparr>"

definition toy_tf :: "(keras_tk, unit, int, nat \<times> nat) tf_lib" where
  "toy_tf = \<lparr>tf_keras_text = keras_text, tf_keras = toy_keras, tf_sklearn = toy_metrics\<rparr>"

definition toy_sk :: "(unit, nat \<times> nat) sk_lib" where
  "toy_sk = \<lparr>sk_sklearn = toy_sklearn, sk_metrics = toy_metrics\<rparr>"

text \<open>The toy network with two outputs, in evaluation mode.\<close>

definition toy_net :: "shape net" where
  "toy_net =
     \<lparr>net_shape = \<lparr>sh_vocab_size = 10000, sh_embedding_dim = 64, sh_hidden_dim = 64,
                     sh_num_classes = 2\<rparr>,
      net_params = \<lparr>sh_vocab_size = 10000, sh_embedding_dim = 64, sh_hidden_dim = 64,
                      sh_num_classes = 2\<rparr>,
      net_training = False\<rparr>"

subsection \<open>Trained instances\<close>

text \<open>
  The samples of the specification's end-to-end scenario, and the three strategies
  trained on them (train and test partition alike) with the parameters above.
\<close>

definition X_demo :: "string list" where
  "X_demo = [''good product'', ''bad product'', ''great service'', ''terrible service'']"

definition y_demo :: "string list" where
  "y_demo = [''pos'', ''neg'', ''pos'', ''neg'']"

definition pt_demo :: "(keras_tk, shape) pt_strategy" where
  "pt_demo = snd (pt_train toy_pt (pt_init toy_pt 10000 64 64 30 (Some ''out''))
                    X_demo y_demo X_demo y_demo)"

definition tf_demo :: "(keras_tk, unit) tf_strategy" where
  "tf_demo = snd (tf_train toy_tf (tf_init toy_tf 10000 30 (Some ''out''))
                    X_demo y_demo X_demo y_demo)"

definition sk_demo :: "unit sk_strategy" where
  "sk_demo = snd (sk_train toy_sk (sk_init toy_sk 10000 (Some ''out''))
                    X_demo y_demo X_demo y_demo)"

text \<open>
  Artifacts of a three-class network under the prefix \<^verbatim>\<open>run1\<close>, as a file system.
\<close>

definition three_class_files :: "shape fs" where
  "three_class_files =
     [models_file ''run1'' ''model.pt'' \<mapsto>
        ModelFile \<lparr>sh_vocab_size = 10000, sh_embedding_dim = 64, sh_hidden_dim = 64,
                   sh_num_classes = 3\<rparr>,
      models_file ''run1'' ''vocab.json'' \<mapsto> JsonFile [(''<OOV>'', JInt 1)],
      models_file ''run1'' ''scaler.json'' \<mapsto>
        JsonFile [(''0'', JStr ''a''), (''1'', JStr ''b''), (''2'', JStr ''c'')]]"

text \<open>The artifacts of a two-class network beside a label map of three labels.\<close>

definition two_class_files :: "shape fs" where
  "two_class_files =
     [models_file ''run2'' ''model.pt'' \<mapsto>
        ModelFile \<lparr>sh_vocab_size = 10000, sh_embedding_dim = 64, sh_hidden_dim = 64,
                   sh_num_classes = 2\<rparr>,
      models_file ''run2'' ''vocab.json'' \<mapsto> JsonFile [(''<OOV>'', JInt 1)],
      models_file ''run2'' ''scaler.json'' \<mapsto>
        JsonFile [(''0'', JStr ''a''), (''1'', JStr ''b''), (''2'', JStr ''c'')]]"



definition int_label_files :: "unit keras_model fs" where
  "int_label_files =
     [models_file ''run3'' ''model.h5'' \<mapsto>
        ModelFile \<lparr>km_input_name = ''input'', km_output_name = ''output'', km_num_classes = 2,
                   km_weights = ()\<rparr>,
      models_file ''run3'' ''vocab.json'' \<mapsto> JsonFile [(''<OOV>'', JInt 1)],
      models_file ''run3'' ''scaler.json'' \<mapsto> JsonFile [(''0'', JInt 1), (''1'', JInt 2)]]"

text \<open>
  An instance whose training raised on a test label that the training labels lack,
  and on which \<^verbatim>\<open>load_model\<close> was then called with no file present.
\<close>

definition pt_half_loaded :: "(keras_tk, shape) pt_strategy" where
  "pt_half_loaded =
     snd (pt_load_model toy_pt
            (snd (pt_train toy_pt (pt_init toy_pt 10000 64 64 30 (Some ''out''))
                    X_demo y_demo X_demo [''other'']))
            ''run1'' Map.empty)"

section \<open>The specification's wording\<close>

text \<open>
  "A text sample reduced to a vector of token indices, truncated or zero-padded on the
  right to a configured maximum length": the first \<open>n\<close> indices, then zeros.
\<close>

definition spec_fixed_length :: "nat \<Rightarrow> int list \<Rightarrow> int list" where
  "spec_fixed_length n s = take n s @ replicate (n - length s) 0"



section \<open>The trained instances, evaluated\<close>

text \<open>
  The three trainings as the model computes them: the metrics returned and the
  instance left. Later evaluations start from these values.
\<close>

lemma pt_demo_train:
  "pt_train toy_pt (pt_init toy_pt 10000 64 64 30 (Some ''out'')) X_demo y_demo X_demo y_demo =
     (Inr \<lparr>train_accuracy = (0, 4), test_accuracy = (0, 4), report = (2, 4)\<rparr>,
      \<lparr>pt_vocab_size = 10000, pt_embedding_dim = 64, pt_hidden_dim = 64, pt_max_len = 30,
       pt_tokenizer =
         \<lparr>word_index =
            [(''<OOV>'', JInt 1), (''product'', JInt 2), (''service'', JInt 3),
             (''good'', JInt 4), (''bad'', JInt 5), (''great'', JInt 6), (''terrible'', JInt 7)],
          tk_state =
            \<lparr>num_words = 10000, oov_token = ''<OOV>'',
             word_counts =
               [(''good'', 2), (''product'', 4), (''bad'', 2), (''great'', 2), (''service'', 4),
                (''terrible'', 2)]\<rparr>\<rparr>,
       pt_label_encoder = Some [JStr ''neg'', JStr ''pos''],
       pt_model =
         Some \<lparr>net_shape = \<lparr>sh_vocab_size = 10000, sh_embedding_dim = 64, sh_hidden_dim = 64,
                              sh_num_classes = 2\<rparr>,
               net_params = \<lparr>sh_vocab_size = 10000, sh_embedding_dim = 64, sh_hidden_dim = 64,
                               sh_num_classes = 2\<rparr>,
               net_training = False\<rparr>,
       pt_is_trained = True, pt_output_path = Some ''out''\<rparr>)"
  by code_simp

lemma tf_demo_train:
  "tf_train toy_tf (tf_init toy_tf 10000 30 (Some ''out'')) X_demo y_demo X_demo y_demo =
     (Inr \<lparr>train_accuracy = (2, 4), test_accuracy = (2, 4), report = (2, 4)\<rparr>,
      \<lparr>tf_vocab_size = 10000, tf_max_len = 30,
       tf_tokenizer =
         \<lparr>word_index =
            [(''<OOV>'', JInt 1), (''product'', JInt 2), (''service'', JInt 3),
             (''good'', JInt 4), (''bad'', JInt 5), (''great'', JInt 6), (''terrible'', JInt 7)],
          tk_state =
            \<lparr>num_words = 10000, oov_token = ''<OOV>'',
             word_counts =
               [(''good'', 2), (''product'', 4), (''bad'', 2), (''great'', 2), (''service'', 4),
                (''terrible'', 2)]\<rparr>\<rparr>,
       tf_label_encoder = Some [JStr ''neg'', JStr ''pos''],
       tf_model =
         Some \<lparr>km_input_name = ''input'', km_output_name = ''output'', km_num_classes = 2,
               km_weights = ()\<rparr>,
       tf_is_trained = True, tf_output_path = Some ''out''\<rparr>)"
  by code_simp

lemma sk_demo_train:
  "sk_train toy_sk (sk_init toy_sk 10000 (Some ''out'')) X_demo y_demo X_demo y_demo =
     (Inr \<lparr>train_accuracy = (2, 4), test_accuracy = (2, 4), report = (2, 4)\<rparr>,
      \<lparr>sk_max_features = 10000, sk_max_len = 10000,
       sk_pipeline =
         \<lparr>pl_vocabulary =
            Some [(''bad'', JInt 0), (''good'', JInt 1), (''great'', JInt 2), (''product'', JInt 3),
                  (''service'', JInt 4), (''terrible'', JInt 5)],
          pl_classes = Some [JInt 0, JInt 1], pl_rest = ()\<rparr>,
       sk_label_encoder = Some [JStr ''neg'', JStr ''pos''],
       sk_is_trained = True, sk_output_path = Some ''out''\<rparr>)"
  by code_simp

lemma pt_demo_value [code]:
  "pt_demo =
     \<lparr>pt_vocab_size = 10000, pt_embedding_dim = 64, pt_hidden_dim = 64, pt_max_len = 30,
      pt_tokenizer =
        \<lparr>word_index =
           [(''<OOV>'', JInt 1), (''product'', JInt 2), (''service'', JInt 3),
            (''good'', JInt 4), (''bad'', JInt 5), (''great'', JInt 6), (''terrible'', JInt 7)],
         tk_state =
           \<lparr>num_words = 10000, oov_token = ''<OOV>'',
            word_counts =
              [(''good'', 2), (''product'', 4), (''bad'', 2), (''great'', 2), (''service'', 4),
               (''terrible'', 2)]\<rparr>\<rparr>,
      pt_label_encoder = Some [JStr ''neg'', JStr ''pos''],
      pt_model = Some toy_net,
      pt_is_trained = True, pt_output_path = Some ''out''\<rparr>"
  by (simp add: pt_demo_def pt_demo_train toy_net_def)

lemma tf_demo_value [code]:
  "tf_demo =
     \<lparr>tf_vocab_size = 10000, tf_max_len = 30,
      tf_tokenizer =
        \<lparr>word_index =
           [(''<OOV>'', JInt 1), (''product'', JInt 2), (''service'', JInt 3),
            (''good'', JInt 4), (''bad'', JInt 5), (''great'', JInt 6), (''terrible'', JInt 7)],
         tk_state =
           \<lparr>num_words = 10000, oov_token = ''<OOV>'',
            word_counts =
              [(''good'', 2), (''product'', 4), (''bad'', 2), (''great'', 2), (''service'', 4),
               (''terrible'', 2)]\<rparr>\<rparr>,
      tf_label_encoder = Some [JStr ''neg'', JStr ''pos''],
      tf_model =
        Some \<lparr>km_input_name = ''input'', km_output_name = ''output'', km_num_classes = 2,
              km_weights = ()\<rparr>,
      tf_is_trained = True, tf_output_path = Some ''out''\<rparr>"
  by (simp add: tf_demo_def tf_demo_train)

lemma sk_demo_value [code]:
  "sk_demo =
     \<lparr>sk_max_features = 10000, sk_max_len = 10000,
      sk_pipeline =
        \<lparr>pl_vocabulary =
           Some [(''bad'', JInt 0), (''good'', JInt 1), (''great'', JInt 2), (''product'', JInt 3),
                 (''service'', JInt 4), (''terrible'', JInt 5)],
         pl_classes = Some [JInt 0, JInt 1], pl_rest = ()\<rparr>,
      sk_label_encoder = Some [JStr ''neg'', JStr ''pos''],
      sk_is_trained = True, sk_output_path = Some ''out''\<rparr>"
  by (simp add: sk_demo_def sk_demo_train)

text \<open>The same trainings, with the instance left by each under its name.\<close>

lemma sk_train_demo: 
  "sk_train toy_sk (sk_init toy_sk 10000 (Some ''out'')) X_demo y_demo X_demo y_demo =
     (Inr \<lparr>train_accuracy = (2, 4), test_accuracy = (2, 4), report = (2, 4)\<rparr>, sk_demo)"
  by (simp add: sk_demo_train sk_demo_value)

lemma pt_train_demo: 
  "pt_train toy_pt (pt_init toy_pt 10000 64 64 30 (Some ''out'')) X_demo y_demo X_demo y_demo =
     (Inr \<lparr>train_accuracy = (0, 4), test_accuracy = (0, 4), report = (2, 4)\<rparr>, pt_demo)"
  by (simp add: pt_demo_train pt_demo_value toy_net_def)

lemma tf_train_demo: 
  "tf_train toy_tf (tf_init toy_tf 10000 30 (Some ''out'')) X_demo y_demo X_demo y_demo =
     (Inr \<lparr>train_accuracy = (2, 4), test_accuracy = (2, 4), report = (2, 4)\<rparr>, tf_demo)"
  by (simp add: tf_demo_train tf_demo_value)

section \<open>Auxiliary facts\<close>

subsection \<open>Comprehensions\<close>

lemma map_result_total:
  "(\<And>x. x \<in> set xs \<Longrightarrow> f x = Inr (g x)) \<Longrightarrow> map_result f xs = Inr (map g xs)"
  by (induction xs) auto

lemma map_result_error:
  "map_result f xs = Inl e \<Longrightarrow> \<exists>x \<in> set xs. f x = Inl e"
  by (induction xs) (auto split: sum.splits)

subsection \<open>Decimal strings\<close>

lemma str_nat_nonempty: "str_nat n \<noteq> []"
  by (subst str_nat.simps) simp

lemma digit_char_inj: "a < 10 \<Longrightarrow> b < 10 \<Longrightarrow> digit_char a = digit_char b \<Longrightarrow> a = b"
  by (simp add: digit_char_def char_of_eq_iff take_bit_nat_eq_self)

lemma str_nat_inj: "str_nat m = str_nat n \<Longrightarrow> m = n"
proof (induction m arbitrary: n rule: str_nat.induct)
  case (1 m)
  show ?case
  proof (cases "m < 10")
    case small: True
    show ?thesis
    proof (cases "n < 10")
      case True
      with small "1.prems" show ?thesis
        by (simp add: str_nat.simps [of m] str_nat.simps [of n] digit_char_inj)
    next
      case False
      with small "1.prems" str_nat_nonempty [of "n div 10"] show ?thesis
        by (simp add: str_nat.simps [of m] str_nat.simps [of n])
    qed
  next
    case large: False
    show ?thesis
    proof (cases "n < 10")
      case True
      with large "1.prems" str_nat_nonempty [of "m div 10"] show ?thesis
        by (simp add: str_nat.simps [of m] str_nat.simps [of n])
    next
      case False
      with large "1.prems"
      have eq: "str_nat (m div 10) = str_nat (n div 10)"
        and dg: "digit_char (m mod 10) = digit_char (n mod 10)"
        by (simp_all add: str_nat.simps [of m] str_nat.simps [of n])
      from "1.IH" [OF large eq] have "m div 10 = n div 10" .
      moreover from dg have "m mod 10 = n mod 10"
        by (simp add: digit_char_inj)
      ultimately show ?thesis
        by (metis div_mult_mod_eq)
    qed
  qed
qed

lemma distinct_str_nat: "distinct (map str_nat [0..<n])"
  by (simp add: distinct_map inj_on_def) (blast dest: str_nat_inj)

subsection \<open>The label map\<close>

lemma dump_labels: "list_all is_JStr classes \<Longrightarrow> map_result dump_label classes = Inr classes"
  using map_result_total [of classes dump_label "\<lambda>v. v"]
  by (auto simp: list_all_iff dump_label_def is_JStr_def split: jval.splits)

lemma label_map_json_strings:
  "list_all is_JStr classes \<Longrightarrow>
     label_map_json classes = Inr (zip (map str_nat [0..<length classes]) classes)"
  by (simp add: label_map_json_def dump_labels)

lemma label_map_lookup:
  assumes "i < length classes"
  shows "dict_get (zip (map str_nat [0..<length classes]) classes) (str_nat i) = Inr (classes ! i)"
proof -
  have "map_of (zip (map str_nat [0..<length classes]) classes) (map str_nat [0..<length classes] ! i)
          = Some (classes ! i)"
    using assms by (intro map_of_zip_nth) (simp_all add: distinct_str_nat)
  with assms show ?thesis by (simp add: dict_get_def)
qed

text \<open>Loading what was dumped gives the classes back.\<close>

lemma labels_of_json_label_map:
  "labels_of_json (zip (map str_nat [0..<length classes]) classes) = Inr classes"
proof -
  have "map_result (\<lambda>i. dict_get (zip (map str_nat [0..<length classes]) classes) (str_nat i))
          [0..<length classes] = Inr (map (\<lambda>i. classes ! i) [0..<length classes])"
    by (rule map_result_total) (simp add: label_map_lookup)
  then show ?thesis by (simp add: labels_of_json_def map_nth)
qed

subsection \<open>The label encoder\<close>

lemma np_unique_set: "set (np_unique ys) = set ys"
  by (simp add: np_unique_def)

lemma np_unique_sorted: "sorted (np_unique ys)"
  by (simp add: np_unique_def)

lemma distinct_remdups_adj_sorted: "sorted xs \<Longrightarrow> distinct (remdups_adj xs)"
  by (induction xs rule: remdups_adj.induct) auto

lemma np_unique_distinct: "distinct (np_unique ys)"
  by (simp add: np_unique_def distinct_remdups_adj_sorted)

lemma class_table_distinct:
  assumes "distinct classes" and "i < length classes"
  shows "class_table classes (classes ! i) = Some i"
proof -
  let ?al = "rev (zip classes [0..<length classes])"
  have "distinct (map fst ?al)"
    using assms(1) by (simp add: rev_map [symmetric])
  moreover have "(classes ! i, i) \<in> set ?al"
    using assms(2) by (auto simp: set_zip)
  ultimately show ?thesis
    by (simp add: class_table_def)
qed

lemma str_width_ge: "JStr l \<in> set classes \<Longrightarrow> length l \<le> str_width classes"
  by (induction classes) (auto simp: str_width_def)

lemma cast_label_known: "JStr l \<in> set classes \<Longrightarrow> cast_label classes l = l"
  by (simp add: cast_label_def str_width_ge)

lemma transform_known:
  assumes "distinct classes" and "l \<in> set ys"  and "JStr ` set ys \<subseteq> set classes"
  shows "\<exists>i < length classes. transform (Some classes) [l] = Inr [i] \<and> classes ! i = JStr l"
proof -
  from assms(2,3) have "JStr l \<in> set classes" by auto
  then obtain i where i: "i < length classes" "classes ! i = JStr l"
    by (auto simp: in_set_conv_nth)
  with class_table_distinct [OF assms(1) i(1)] \<open>JStr l \<in> set classes\<close> show ?thesis
    by (auto simp: transform_def cast_label_known)
qed

lemma fit_transform_classes: "fst (fit_transform y) = map JStr (np_unique y)"
  by (simp add: fit_transform_def Let_def)

lemma fit_transform_distinct: "distinct (fst (fit_transform y))"
  by (simp add: fit_transform_classes distinct_map np_unique_distinct inj_on_def)

lemma fit_transform_strings: "list_all is_JStr (fst (fit_transform y))"
  by (simp add: fit_transform_classes list_all_iff is_JStr_def)

lemma fit_transform_range:
  "i \<in> set (snd (fit_transform y)) \<Longrightarrow> i < length (fst (fit_transform y))"
proof -
  assume "i \<in> set (snd (fit_transform y))"
  then obtain l where l: "l \<in> set y" "i = length (filter (\<lambda>c. c < l) (np_unique y))"
    by (auto simp: fit_transform_def Let_def)
  from l(1) have "l \<in> set (np_unique y)" by (simp add: np_unique_set)
  then have "length (filter (\<lambda>c. c < l) (np_unique y)) < length (np_unique y)"
    by (rule length_filter_less) simp
  with l(2) show ?thesis by (simp add: fit_transform_classes)
qed

subsection \<open>What the methods leave unchanged\<close>

lemma pt_predict_state:
  "snd (pt_predict L s X) = s\<lparr>pt_model := map_option (\<lambda>m. m\<lparr>net_training := False\<rparr>) (pt_model s)\<rparr>"
  by (auto simp: pt_predict_def Let_def split: option.splits sum.splits)

lemma pt_predict_stateD:
  "pt_predict L s X = (r, s') \<Longrightarrow>
     s' = s\<lparr>pt_model := map_option (\<lambda>m. m\<lparr>net_training := False\<rparr>) (pt_model s)\<rparr>"
  using pt_predict_state [of L s X] by simp

text \<open>A training that returns its metrics leaves a fitted, trained instance.\<close>

lemma pt_train_success:
  assumes "pt_train L s0 X_train y_train X_test y_test = (Inr mt, s)"
  shows "pt_is_trained s"
    and "pt_label_encoder s = Some (fst (fit_transform y_train))"
    and "\<exists>m. pt_model s = Some m \<and> sh_num_classes (net_shape m) = length (fst (fit_transform y_train))"
    and "pt_output_path s = pt_output_path s0"
    and "pt_max_len s = pt_max_len s0"
  using assms
  by (auto simp: pt_train_def pt_build_model_def Let_def
           split: option.splits sum.splits prod.splits
           dest!: pt_predict_stateD)

lemma tf_train_success:
  assumes "tf_train L s0 X_train y_train X_test y_test = (Inr mt, s)"
  shows "tf_is_trained s"
    and "tf_label_encoder s = Some (fst (fit_transform y_train))"
    and "\<exists>m. tf_model s = Some m \<and> km_output_name m = ''output'' \<and> km_input_name m = ''input''
            \<and> km_num_classes m = length (fst (fit_transform y_train))"
    and "tf_output_path s = tf_output_path s0"
    and "tf_max_len s = tf_max_len s0"
  using assms
  by (auto simp: tf_train_def tf_build_model_def Let_def
           split: option.splits sum.splits prod.splits)

lemma sk_train_success:
  assumes "sk_train L s0 X_train y_train X_test y_test = (Inr mt, s)"
  shows "sk_is_trained s"
    and "sk_label_encoder s = Some (fst (fit_transform y_train))"
    and "pl_classes (sk_pipeline s) = Some (map (JInt \<circ> int) (np_unique (snd (fit_transform y_train))))"
    and "sk_output_path s = sk_output_path s0"
  using assms
  by (auto simp: sk_train_def pipeline_fit_def Let_def
           split: option.splits sum.splits prod.splits)

subsection \<open>Exports\<close>




subsection \<open>Saves\<close>

lemma write_scaler_strings:
  "list_all is_JStr classes \<Longrightarrow>
     write_scaler (Some classes) path files =
       (Inr (), files(path \<mapsto> JsonFile (zip (map str_nat [0..<length classes]) classes)))"
  by (simp add: write_scaler_def label_map_json_strings)

lemma pt_save_model_writes:
  assumes "pt_is_trained s" and "pt_model s = Some m" and "pt_label_encoder s = Some classes"
    and "list_all is_JStr classes"
  shows "pt_save_model L s files =
           pt_export_to_onnx L s
             (files(out_file (pt_output_path s) ''model.pt'' \<mapsto> ModelFile (net_params m),
                    out_file (pt_output_path s) ''vocab.json'' \<mapsto> JsonFile (word_index (pt_tokenizer s)),
                    out_file (pt_output_path s) ''scaler.json'' \<mapsto>
                      JsonFile (zip (map str_nat [0..<length classes]) classes)))"
  using assms
  by (simp add: pt_save_model_def Let_def write_scaler_strings)

lemma tf_save_model_writes:
  assumes "tf_is_trained s" and "tf_model s = Some m" and "tf_label_encoder s = Some classes"
    and "list_all is_JStr classes"
  shows "tf_save_model L s files =
           tf_export_to_onnx L s
             (files(out_file (tf_output_path s) ''model.h5'' \<mapsto> ModelFile m,
                    out_file (tf_output_path s) ''vocab.json'' \<mapsto> JsonFile (word_index (tf_tokenizer s)),
                    out_file (tf_output_path s) ''scaler.json'' \<mapsto>
                      JsonFile (zip (map str_nat [0..<length classes]) classes)))"
  using assms
  by (simp add: tf_save_model_def Let_def write_scaler_strings)

lemma vocab_ints:
  assumes "list_all (\<lambda>kv. is_JInt (snd kv)) vocabulary"
  shows "map_result (\<lambda>(k, v). case py_int S v of Inl e \<Rightarrow> Inl e | Inr i \<Rightarrow> Inr (k, JInt i)) vocabulary
           = Inr vocabulary"
proof -
  have "map_result (\<lambda>(k, v). case py_int S v of Inl e \<Rightarrow> Inl e | Inr i \<Rightarrow> Inr (k, JInt i)) vocabulary
          = Inr (map (\<lambda>kv. kv) vocabulary)"
    using assms
    by (intro map_result_total)
       (auto simp: list_all_iff py_int_def is_JInt_def split: jval.splits)
  then show ?thesis by simp
qed

lemma sk_save_model_writes:
  assumes "sk_is_trained s" and "pl_vocabulary (sk_pipeline s) = Some vocabulary"
    and "list_all (\<lambda>kv. is_JInt (snd kv)) vocabulary"
    and "sk_label_encoder s = Some classes" and "list_all is_JStr classes"
  shows "sk_save_model L s files =
           sk_export_to_onnx L s
             (files(out_file (sk_output_path s) ''model.pkl'' \<mapsto> ModelFile (sk_pipeline s),
                    out_file (sk_output_path s) ''vocab.json'' \<mapsto> JsonFile vocabulary,
                    out_file (sk_output_path s) ''scaler.json'' \<mapsto>
                      JsonFile (zip (map str_nat [0..<length classes]) classes)))"
  using assms
  by (simp add: sk_save_model_def Let_def write_scaler_strings vocab_ints)

subsection \<open>Paths and files\<close>




lemma out_file_inj: "out_file p a = out_file p b \<longleftrightarrow> a = b"
  by (simp add: out_file_def)


lemma write_scaler_written: "snd (write_scaler enc path files) path \<noteq> None"
  by (auto simp: write_scaler_def split: option.splits sum.splits)

lemma write_scaler_json:
  "write_scaler enc path files = (Inr u, files') \<Longrightarrow> \<exists>d. files' = files(path \<mapsto> JsonFile d)"
  by (auto simp: write_scaler_def split: option.splits sum.splits)


lemma pt_export_frame:
  "p \<noteq> out_file (pt_output_path s) ''model.onnx'' \<Longrightarrow>
     snd (snd (pt_export_to_onnx L s files)) p = files p"
  by (auto simp: pt_export_to_onnx_def Let_def split: option.splits)


lemma tf_export_frame:
  "p \<noteq> out_file (tf_output_path s) ''model.onnx'' \<Longrightarrow>
     snd (snd (tf_export_to_onnx L s files)) p = files p"
  by (auto simp: tf_export_to_onnx_def Let_def split: option.splits)


lemma sk_export_frame:
  "p \<noteq> out_file (sk_output_path s) ''model.onnx'' \<Longrightarrow>
     snd (snd (sk_export_to_onnx L s files)) p = files p"
  by (auto simp: sk_export_to_onnx_def Let_def split: option.splits)














lemma dump_labels_error: "map_result dump_label classes = Inl e \<Longrightarrow> e = TypeError"
  by (auto dest!: map_result_error simp: dump_label_def split: jval.splits)

lemma vocab_error:
  "map_result (\<lambda>(k, v). case py_int S v of Inl e \<Rightarrow> Inl e | Inr i \<Rightarrow> Inr (k, JInt i)) vocabulary = Inl e
     \<Longrightarrow> e = ValueError"
  by (auto dest!: map_result_error simp: py_int_def split: jval.splits option.splits sum.splits)

lemma pt_save_gate:
  "(\<exists>e. fst (pt_save_model L s files) = Inl e \<and> untrained_error e) = (\<not> pt_is_trained s)"
  by (auto simp: pt_save_model_def pt_export_to_onnx_def write_scaler_def label_map_json_def
                 untrained_error_def Let_def
           split: option.splits sum.splits prod.splits
           dest: dump_labels_error)

lemma tf_save_gate:
  "(\<exists>e. fst (tf_save_model L s files) = Inl e \<and> untrained_error e) = (\<not> tf_is_trained s)"
  by (auto simp: tf_save_model_def tf_export_to_onnx_def write_scaler_def label_map_json_def
                 untrained_error_def Let_def
           split: option.splits sum.splits prod.splits
           dest: dump_labels_error)

lemma sk_save_gate:
  "(\<exists>e. fst (sk_save_model L s files) = Inl e \<and> untrained_error e) = (\<not> sk_is_trained s)"
  by (auto simp: sk_save_model_def sk_export_to_onnx_def write_scaler_def label_map_json_def
                 untrained_error_def Let_def
           split: option.splits sum.splits prod.splits
           dest: dump_labels_error vocab_error)

lemma pt_train_fitted:
  assumes "pt_train L s0 X_train y_train X_test y_test = (Inr mt, s)"
  shows "pt_is_trained s \<and> (\<exists>m classes. pt_model s = Some m \<and> pt_label_encoder s = Some classes
           \<and> list_all is_JStr classes)"
  using pt_train_success [OF assms] fit_transform_strings [of y_train] by auto

lemma tf_train_fitted:
  assumes "tf_train L s0 X_train y_train X_test y_test = (Inr mt, s)"
  shows "tf_is_trained s \<and> (\<exists>m classes. tf_model s = Some m \<and> tf_label_encoder s = Some classes
           \<and> list_all is_JStr classes)"
  using tf_train_success [OF assms] fit_transform_strings [of y_train] by auto

lemma sk_train_fitted:
  assumes "sk_train L s0 X_train y_train X_test y_test = (Inr mt, s)"
  shows "sk_is_trained s \<and> (\<exists>classes. sk_label_encoder s = Some classes \<and> list_all is_JStr classes)"
  using sk_train_success [OF assms] fit_transform_strings [of y_train] by auto

lemma round_trip:
  assumes enc: "enc = Some (fst (fit_transform y_train))"
    and scaler: "written = Some (JsonFile (zip (map str_nat [0..<length (fst (fit_transform y_train))])
                                               (fst (fit_transform y_train))))"
    and l: "l \<in> set y_train"
  shows "\<exists>i d. transform enc [l] = Inr [i] \<and> written = Some (JsonFile d)
                \<and> dict_get d (str_nat i) = Inr (JStr l)
                \<and> (\<exists>labels. labels_of_json d = Inr labels \<and> i < length labels \<and> labels ! i = JStr l)"
proof -
  let ?classes = "fst (fit_transform y_train)"
  have "JStr ` set y_train \<subseteq> set ?classes"
    by (simp add: fit_transform_classes np_unique_set)
  with transform_known [OF fit_transform_distinct l, of y_train]
  obtain i where i: "i < length ?classes" "transform (Some ?classes) [l] = Inr [i]"
      "?classes ! i = JStr l"
    by blast
  from i(1,3) have "dict_get (zip (map str_nat [0..<length ?classes]) ?classes) (str_nat i) = Inr (JStr l)"
    by (simp add: label_map_lookup)
  with i enc scaler labels_of_json_label_map [of ?classes] show ?thesis
    by auto
qed

lemma pt_saved_scaler:
  assumes "pt_train L s0 X_train y_train X_test y_test = (Inr mt, s)"
  shows "snd (snd (pt_save_model L s files)) (out_file (pt_output_path s) ''scaler.json'')
          = Some (JsonFile (zip (map str_nat [0..<length (fst (fit_transform y_train))])
                                (fst (fit_transform y_train))))"
  using pt_train_success [OF assms] fit_transform_strings [of y_train]
  by (auto simp: pt_save_model_writes pt_export_frame out_file_inj)

lemma tf_saved_scaler:
  assumes "tf_train L s0 X_train y_train X_test y_test = (Inr mt, s)"
  shows "snd (snd (tf_save_model L s files)) (out_file (tf_output_path s) ''scaler.json'')
          = Some (JsonFile (zip (map str_nat [0..<length (fst (fit_transform y_train))])
                                (fst (fit_transform y_train))))"
  using tf_train_success [OF assms] fit_transform_strings [of y_train]
  by (auto simp: tf_save_model_writes tf_export_frame out_file_inj)

lemma sk_saved_scaler:
  assumes "sk_train L s0 X_train y_train X_test y_test = (Inr mt, s)"
    and "pl_vocabulary (sk_pipeline s) = Some vocabulary"
    and "list_all (\<lambda>kv. is_JInt (snd kv)) vocabulary"
  shows "snd (snd (sk_save_model L s files)) (out_file (sk_output_path s) ''scaler.json'')
          = Some (JsonFile (zip (map str_nat [0..<length (fst (fit_transform y_train))])
                                (fst (fit_transform y_train))))"
  using sk_train_success [OF assms(1)] fit_transform_strings [of y_train] assms(2,3)
  by (auto simp: sk_save_model_writes sk_export_frame out_file_inj)

lemma index_classes:
  "map_result (\<lambda>i. if i < length classes then Inr (classes ! i) else Inl IndexError) indices = Inr ys
     \<Longrightarrow> set ys \<subseteq> set classes"
  by (induction indices arbitrary: ys) (auto split: if_splits sum.splits)

lemma pipeline_predict_classes:
  assumes "pipeline_predict S pl X = Inr preds" and "pl_classes pl = Some classes"
  shows "set preds \<subseteq> set classes"
  using assms
  by (auto simp: pipeline_predict_def split: sum.splits if_splits dest: index_classes)

lemma embedding_lookup_lstm [simp]: "embedding_lookup (T\<lparr>lstm := g\<rparr>) m = embedding_lookup T m"
  by (rule ext) (simp add: embedding_lookup_def)

lemma dropout_lstm [simp]: "dropout (T\<lparr>lstm := g\<rparr>) m = dropout T m"
  by (rule ext) (simp add: dropout_def)

lemma forward_first_step:
  "forward T m input_ids =
     bind_result (map_result (map_result (embedding_lookup T m)) input_ids) (\<lambda>x.
     bind_result (bind_result (lstm T (net_params m) x) (map_result first_step)) (\<lambda>y.
       Inr (map (fc2 T (net_params m))
              (map (\<lambda>v. relu (fc1 T (net_params m) v)) (dropout T m y)))))"
  by (simp add: forward_def bind_result_def Let_def split: sum.splits)

section \<open>Predicting before training\<close>

text \<open>
  Claim C1. \<^verbatim>\<open>predict\<close> on an instance whose trained flag is unset should fail with
  the "untrained model" error. Only \<^verbatim>\<open>ScikitLearnTFIDFStrategy.predict\<close> has the
  guard. On a fresh instance the two recurrent strategies raise \<^verbatim>\<open>AttributeError\<close>
  from \<^verbatim>\<open>self.model\<close> being \<^verbatim>\<open>None\<close>, which is none of the guards' errors; and on an
  instance that has a network while its flag is unset, \<^verbatim>\<open>predict\<close> returns
  predictions.
\<close>

theorem predict_without_guard:
  "fst (pt_predict L1 (pt_init L1 v e h n out1) X) = Inl AttributeError
   \<and> fst (tf_predict L2 (tf_init L2 v2 n2 out2) X_seq) = Inl AttributeError
   \<and> \<not> untrained_error AttributeError
   \<and> fst (sk_predict L3 (sk_init L3 m out3) X)
       = Inl (RuntimeError ''Model must be trained before predicting'')
   \<and> \<not> pt_is_trained pt_half_loaded
   \<and> fst (pt_predict toy_pt pt_half_loaded [''good service'']) = Inr [0]"
proof -
  have a: "fst (pt_predict L1 (pt_init L1 v e h n out1) X) = Inl AttributeError"
    by (simp add: pt_predict_def pt_init_def)
  have b: "fst (tf_predict L2 (tf_init L2 v2 n2 out2) X_seq) = Inl AttributeError"
    by (simp add: tf_predict_def tf_classify_def tf_init_def)
  have c: "\<not> untrained_error AttributeError"
    by (simp add: untrained_error_def)
  have d: "fst (sk_predict L3 (sk_init L3 m out3) X)
             = Inl (RuntimeError ''Model must be trained before predicting'')"
    by (simp add: sk_predict_def sk_init_def)
  have e: "\<not> pt_is_trained pt_half_loaded"
    by code_simp
  have f: "fst (pt_predict toy_pt pt_half_loaded [''good service'']) = Inr [0]"
    by code_simp
  from a b c d e f show ?thesis by simp
qed

section \<open>Where a save writes and a load reads\<close>









section \<open>What the linear strategy predicts\<close>

text \<open>
  Claim C3, as stated, fails: the pipeline is fitted on the encoded labels, so it
  predicts class indices. Trained on the labels \<^verbatim>\<open>pos\<close> and \<^verbatim>\<open>neg\<close>, the strategy
  predicts the integer 0 for the sample below, not a label string.
\<close>

theorem linear_predict_counterexample:
  "sk_label_encoder sk_demo = Some [JStr ''neg'', JStr ''pos'']
   \<and> fst (sk_predict toy_sk sk_demo [''good service'']) = Inr [JInt 0]
   \<and> \<not> list_all is_JStr [JInt 0]"
  by code_simp

text \<open>
  Claim C3, amended. After a training that returned, every value the linear strategy
  predicts, for every list of samples, is an integer class index, at least 0 and less
  than the number of distinct training labels, and never a label string: the same
  kind of value the recurrent strategies return.
\<close>

theorem linear_predict_returns_indices:
  assumes "sk_train L s0 X_train y_train X_test y_test = (Inr mt, s)"
    and "sk_predict L s X = (Inr preds, s')"
  shows "list_all (\<lambda>v. \<exists>i < length (np_unique y_train). v = JInt (int i)) preds
         \<and> list_all (\<lambda>v. \<not> is_JStr v) preds"
proof -
  from sk_train_success [OF assms(1)]
  have cls: "pl_classes (sk_pipeline s) = Some (map (JInt \<circ> int) (np_unique (snd (fit_transform y_train))))"
    and tr: "sk_is_trained s"
    by simp_all
  from assms(2) tr have "pipeline_predict (sk_sklearn L) (sk_pipeline s) X = Inr preds"
    by (auto simp: sk_predict_def)
  from pipeline_predict_classes [OF this cls]
  have sub: "set preds \<subseteq> (JInt \<circ> int) ` set (snd (fit_transform y_train))"
    by (simp add: np_unique_set)
  have "\<exists>i < length (np_unique y_train). v = JInt (int i)" if "v \<in> set preds" for v
  proof -
    from that sub obtain i where i: "i \<in> set (snd (fit_transform y_train))" "v = JInt (int i)"
      by auto
    from fit_transform_range [OF i(1)] have "i < length (np_unique y_train)"
      by (simp add: fit_transform_classes)
    with i(2) show ?thesis by blast
  qed
  then show ?thesis
    by (fastforce simp: list_all_iff is_JStr_def)
qed

lemma sk_demo_predict:
  "sk_predict toy_sk sk_demo [''good service''] = (Inr [JInt 0], sk_demo)"
  by code_simp

text \<open>The trained instance of the scenario and one sample.\<close>

theorem linear_predict_returns_indices_witness:
  "sk_train toy_sk (sk_init toy_sk 10000 (Some ''out'')) X_demo y_demo X_demo y_demo =
     (Inr \<lparr>train_accuracy = (2, 4), test_accuracy = (2, 4), report = (2, 4)\<rparr>, sk_demo)
   \<and> sk_predict toy_sk sk_demo [''good service''] = (Inr [JInt 0], sk_demo)
   \<and> list_all (\<lambda>v. \<exists>i < length (np_unique y_demo). v = JInt (int i)) [JInt 0]
   \<and> list_all (\<lambda>v. \<not> is_JStr v) [JInt 0]"
  using linear_predict_returns_indices [OF sk_train_demo sk_demo_predict]
        sk_train_demo sk_demo_predict
  by simp

section \<open>Fixed-length sequences\<close>

lemma pad_row_post_pre:
  assumes "0 < maxlen"
  shows "pad_row maxlen Post Pre 0 s =
           Inr (if int (length s) \<le> maxlen then s @ replicate (nat maxlen - length s) 0
                else drop (length s - nat maxlen) s)"
  using assms
  by (auto simp: pad_row_def slice_from_def slice_bound_def Let_def max_def
                 nat_diff_distrib nat_add_distrib)

text \<open>
  Claim C4, as the specification words it (padding and truncation both on the right),
  fails: \<^verbatim>\<open>pad_sequences\<close> is called with \<^verbatim>\<open>padding="post"\<close> only, and its default
  \<^verbatim>\<open>truncating="pre"\<close> drops the first tokens of a long text. With the tokenizer of
  the trained instance, the five words below have the indices 4, 3, 4, 5, 2; at a
  maximum length of 3 the strategy keeps 4, 5, 2, where truncation on the right would
  keep 4, 3, 4. At a maximum length of 0 no row is produced at all: \<^verbatim>\<open>s[-0:]\<close> is
  the whole sequence, which does not fit a row without cells.
\<close>

theorem right_truncation_counterexample:
  "texts_to_sequences keras_text (pt_tokenizer pt_demo) [''good service good bad product'']
     = Inr [[4, 3, 4, 5, 2]]
   \<and> texts_to_padded keras_text (pt_tokenizer pt_demo) 3 [''good service good bad product'']
     = Inr [[4, 5, 2]]
   \<and> map (spec_fixed_length 3) [[4, 3, 4, 5, 2]] = [[4, 3, 4]]
   \<and> texts_to_padded keras_text (pt_tokenizer pt_demo) 0 [''good service good bad product'']
     = Inl ValueError"
  by code_simp

text \<open>
  Claim C4, amended. For a positive maximum length and every text the tokenizer turns
  into sequences, tokenization followed by \<^verbatim>\<open>pad_sequences\<close> returns one row per
  text, each of exactly \<open>max_len\<close> entries: a sequence of at most \<open>max_len\<close> indices is
  followed by zeros (padding on the right), a longer one is cut down to its last
  \<open>max_len\<close> indices (truncation on the left).
\<close>

theorem padded_rows:
  assumes "0 < max_len" and "texts_to_sequences K tok X = Inr seqs"
  shows "texts_to_padded K tok max_len X =
           Inr (map (\<lambda>s. if int (length s) \<le> max_len
                          then s @ replicate (nat max_len - length s) 0
                          else drop (length s - nat max_len) s) seqs)
         \<and> (\<exists>rows. texts_to_padded K tok max_len X = Inr rows \<and> length rows = length seqs
               \<and> list_all (\<lambda>row. int (length row) = max_len) rows)"
proof -
  let ?g = "\<lambda>s. if int (length s) \<le> max_len then s @ replicate (nat max_len - length s) 0
                 else drop (length s - nat max_len) s"
  have eq: "texts_to_padded K tok max_len X = Inr (map ?g seqs)"
    using assms
    by (simp add: texts_to_padded_def pad_sequences_def map_result_total [where g = ?g]
                  pad_row_post_pre)
  have len: "list_all (\<lambda>row. int (length row) = max_len) (map ?g seqs)"
    using assms(1) by (auto simp: list_all_iff)
  from eq len show ?thesis by simp
qed

lemma demo_sequences:
  "texts_to_sequences keras_text (pt_tokenizer pt_demo) [''good service good bad product'', ''bad'']
     = Inr [[4, 3, 4, 5, 2], [5]]"
  by code_simp

theorem padded_rows_witness:
  "(0::int) < 3
   \<and> texts_to_sequences keras_text (pt_tokenizer pt_demo) [''good service good bad product'', ''bad'']
       = Inr [[4, 3, 4, 5, 2], [5]]
   \<and> texts_to_padded keras_text (pt_tokenizer pt_demo) 3 [''good service good bad product'', ''bad'']
       = Inr [[4, 5, 2], [5, 0, 0]]"
proof -
  have pos: "(0::int) < 3" by simp
  from padded_rows [OF pos demo_sequences] demo_sequences show ?thesis
    by (simp add: numeral_2_eq_2)
qed

section \<open>The forward pass of the PyTorch network\<close>

text \<open>
  Claim C5. The forward pass reads the recurrent layer's output at time step 0 only:
  for every batch it is the head (dropout, first linear layer, ReLU, second linear
  layer) applied to the first entries of the sequences the recurrent layer returns,
  and it is unchanged when the recurrent layer is replaced by any other whose output
  sequences have the same first entries (and that fails alike).
\<close>

theorem forward_reads_first_time_step:
  assumes "\<And>x. bind_result (g (net_params m) x) (map_result first_step)
                = bind_result (lstm T (net_params m) x) (map_result first_step)"
  shows "forward (T\<lparr>lstm := g\<rparr>) m input_ids = forward T m input_ids
         \<and> forward T m input_ids =
             bind_result (map_result (map_result (embedding_lookup T m)) input_ids) (\<lambda>x.
             bind_result (bind_result (lstm T (net_params m) x) (map_result first_step)) (\<lambda>y.
               Inr (map (fc2 T (net_params m))
                      (map (\<lambda>v. relu (fc1 T (net_params m) v)) (dropout T m y)))))"
proof -
  have "forward (T\<lparr>lstm := g\<rparr>) m input_ids = forward T m input_ids"
    by (simp add: forward_first_step assms)
  then show ?thesis
    by (simp add: forward_first_step)
qed

text \<open>
  The toy network, whose recurrent layer returns its input, against a layer that keeps
  the first time step only: the two agree at time step 0 and the forward pass does not
  tell them apart. Against a layer that reverses every sequence, which has the same
  last time step as the original has first and would leave any pooling over time that
  ignores the order unchanged, the forward pass differs.
\<close>

theorem forward_reads_first_time_step_witness:
  "(\<forall>x. bind_result (Inr (map (take 1) x)) (map_result first_step)
          = bind_result (lstm toy_torch (net_params toy_net) x) (map_result first_step))
   \<and> forward (toy_torch\<lparr>lstm := (\<lambda>w x. Inr (map (take 1) x))\<rparr>) toy_net [[4, 3, 0], [5, 0, 0]]
       = forward toy_torch toy_net [[4, 3, 0], [5, 0, 0]]
   \<and> forward toy_torch toy_net [[4, 3, 0], [5, 0, 0]] = Inr [[1, 0], [0, 1]]
   \<and> forward (toy_torch\<lparr>lstm := (\<lambda>w x. Inr (map rev x))\<rparr>) toy_net [[4, 3, 0], [5, 0, 0]]
       = Inr [[1, 0], [1, 0]]"
proof -
  have same: "first_step (take (Suc 0) ys) = first_step ys" for ys :: "int list list"
    by (cases ys) (simp_all add: first_step_def)
  have agree: "bind_result ((\<lambda>w x. Inr (map (take 1) x)) (net_params toy_net) x)
                   (map_result first_step)
                 = bind_result (lstm toy_torch (net_params toy_net) x) (map_result first_step)"
    for x :: "int list list list"
    by (induction x) (auto simp: toy_torch_def bind_result_def same split: sum.splits)
  have v1: "forward toy_torch toy_net [[4, 3, 0], [5, 0, 0]] = Inr [[1, 0], [0, 1]]"
    by code_simp
  have v2: "forward (toy_torch\<lparr>lstm := (\<lambda>w x. Inr (map rev x))\<rparr>) toy_net [[4, 3, 0], [5, 0, 0]]
              = Inr [[1, 0], [1, 0]]"
    by code_simp
  from forward_reads_first_time_step [of "\<lambda>w x. Inr (map (take 1) x)" toy_net toy_torch, OF agree]
       agree v1 v2
  show ?thesis by simp
qed

section \<open>The guard of save_model and what it persists\<close>

lemma pt_demo_saves: "fst (pt_save_model toy_pt pt_demo Map.empty) = Inr ()"
  by code_simp

lemma tf_demo_saves: "fst (tf_save_model toy_tf tf_demo Map.empty) = Inr ()"
  by code_simp

lemma sk_demo_saves: "fst (sk_save_model toy_sk sk_demo Map.empty) = Inr ()"
  by code_simp

text \<open>
  Claim C6, as stated, fails in its second half: a set flag does not make
  \<^verbatim>\<open>save_model\<close> persist the three artifacts and export. \<^verbatim>\<open>load_model\<close> sets the
  flag without looking at what it loaded. On a fresh TensorFlow instance it returns for
  a label map of integers; the \<^verbatim>\<open>save_model\<close> that follows writes \<^verbatim>\<open>model.h5\<close> and
  \<^verbatim>\<open>vocab.json\<close>, raises \<^verbatim>\<open>TypeError\<close> while it dumps the label map (a NumPy
  integer is not serializable), leaves a \<^verbatim>\<open>scaler.json\<close> that is no label map and
  never gets to the export.
\<close>

theorem save_model_artifacts_counterexample:
  "fst (tf_load_model toy_tf (tf_init toy_tf 10000 30 (Some ''out'')) ''run3'' int_label_files) = Inr ()
   \<and> tf_is_trained (snd (tf_load_model toy_tf (tf_init toy_tf 10000 30 (Some ''out'')) ''run3'' int_label_files))
   \<and> tf_label_encoder (snd (tf_load_model toy_tf (tf_init toy_tf 10000 30 (Some ''out'')) ''run3'' int_label_files))
       = Some [JInt 1, JInt 2]
   \<and> fst (tf_save_model toy_tf
            (snd (tf_load_model toy_tf (tf_init toy_tf 10000 30 (Some ''out'')) ''run3'' int_label_files))
            int_label_files) = Inl TypeError
   \<and> snd (snd (tf_save_model toy_tf
            (snd (tf_load_model toy_tf (tf_init toy_tf 10000 30 (Some ''out'')) ''run3'' int_label_files))
            int_label_files)) ''out/scaler.json'' = Some OtherFile
   \<and> snd (snd (tf_save_model toy_tf
            (snd (tf_load_model toy_tf (tf_init toy_tf 10000 30 (Some ''out'')) ''run3'' int_label_files))
            int_label_files)) ''out/model.onnx'' = None"
  by code_simp

text \<open>
  Claim C6, amended. For each strategy: \<^verbatim>\<open>save_model\<close> ends in an "untrained model"
  error if and only if the trained flag is unset, and then it is the error of its own
  guard and nothing has changed. With the flag set and the instance fitted as a
  training leaves it, that is with a network (or a vocabulary of integers, for the
  linear strategy) and a label encoder whose classes are strings, \<^verbatim>\<open>save_model\<close>
  is \<^verbatim>\<open>export_to_onnx\<close> run on the file system to which exactly three artifacts were
  added under the output path: the model, the vocabulary in \<^verbatim>\<open>vocab.json\<close> and, in
  \<^verbatim>\<open>scaler.json\<close>, the map from the decimal strings of the class indices to the
  labels. A training that returned leaves the flag set and such a network and encoder.
\<close>

theorem save_model_gate_and_artifacts:
  "((\<exists>e. fst (pt_save_model L1 s1 files1) = Inl e \<and> untrained_error e) = (\<not> pt_is_trained s1))
   \<and> (\<not> pt_is_trained s1 \<longrightarrow>
        pt_save_model L1 s1 files1 = (Inl (RuntimeError ''Cannot save untrained model''), s1, files1))
   \<and> (pt_is_trained s1 \<and> pt_model s1 = Some m1 \<and> pt_label_encoder s1 = Some classes1
        \<and> list_all is_JStr classes1 \<longrightarrow>
        pt_save_model L1 s1 files1 =
          pt_export_to_onnx L1 s1
            (files1(out_file (pt_output_path s1) ''model.pt'' \<mapsto> ModelFile (net_params m1),
                    out_file (pt_output_path s1) ''vocab.json'' \<mapsto>
                      JsonFile (word_index (pt_tokenizer s1)),
                    out_file (pt_output_path s1) ''scaler.json'' \<mapsto>
                      JsonFile (zip (map str_nat [0..<length classes1]) classes1))))
   \<and> (pt_train L1 s1' X1 y1 X1' y1' = (Inr mt1, s1) \<longrightarrow>
        pt_is_trained s1 \<and> (\<exists>m classes. pt_model s1 = Some m \<and> pt_label_encoder s1 = Some classes
          \<and> list_all is_JStr classes))
   \<and> ((\<exists>e. fst (tf_save_model L2 s2 files2) = Inl e \<and> untrained_error e) = (\<not> tf_is_trained s2))
   \<and> (\<not> tf_is_trained s2 \<longrightarrow>
        tf_save_model L2 s2 files2 = (Inl (RuntimeError ''Cannot save untrained model''), s2, files2))
   \<and> (tf_is_trained s2 \<and> tf_model s2 = Some m2 \<and> tf_label_encoder s2 = Some classes2
        \<and> list_all is_JStr classes2 \<longrightarrow>
        tf_save_model L2 s2 files2 =
          tf_export_to_onnx L2 s2
            (files2(out_file (tf_output_path s2) ''model.h5'' \<mapsto> ModelFile m2,
                    out_file (tf_output_path s2) ''vocab.json'' \<mapsto>
                      JsonFile (word_index (tf_tokenizer s2)),
                    out_file (tf_output_path s2) ''scaler.json'' \<mapsto>
                      JsonFile (zip (map str_nat [0..<length classes2]) classes2))))
   \<and> (tf_train L2 s2' X2 y2 X2' y2' = (Inr mt2, s2) \<longrightarrow>
        tf_is_trained s2 \<and> (\<exists>m classes. tf_model s2 = Some m \<and> tf_label_encoder s2 = Some classes
          \<and> list_all is_JStr classes))
   \<and> ((\<exists>e. fst (sk_save_model L3 s3 files3) = Inl e \<and> untrained_error e) = (\<not> sk_is_trained s3))
   \<and> (\<not> sk_is_trained s3 \<longrightarrow>
        sk_save_model L3 s3 files3 = (Inl (RuntimeError ''Cannot save untrained model''), s3, files3))
   \<and> (sk_is_trained s3 \<and> pl_vocabulary (sk_pipeline s3) = Some vocabulary3
        \<and> list_all (\<lambda>kv. is_JInt (snd kv)) vocabulary3
        \<and> sk_label_encoder s3 = Some classes3 \<and> list_all is_JStr classes3 \<longrightarrow>
        sk_save_model L3 s3 files3 =
          sk_export_to_onnx L3 s3
            (files3(out_file (sk_output_path s3) ''model.pkl'' \<mapsto> ModelFile (sk_pipeline s3),
                    out_file (sk_output_path s3) ''vocab.json'' \<mapsto> JsonFile vocabulary3,
                    out_file (sk_output_path s3) ''scaler.json'' \<mapsto>
                      JsonFile (zip (map str_nat [0..<length classes3]) classes3))))
   \<and> (sk_train L3 s3' X3 y3 X3' y3' = (Inr mt3, s3) \<longrightarrow>
        sk_is_trained s3 \<and> (\<exists>classes. sk_label_encoder s3 = Some classes \<and> list_all is_JStr classes))"
  (is "?pt_gate \<and> ?pt_raise \<and> ?pt_write \<and> ?pt_train \<and> ?tf_gate \<and> ?tf_raise \<and> ?tf_write \<and> ?tf_train
       \<and> ?sk_gate \<and> ?sk_raise \<and> ?sk_write \<and> ?sk_train")
proof (intro conjI)
  show ?pt_gate by (rule pt_save_gate)
  show ?pt_raise by (simp add: pt_save_model_def)
  show ?pt_write by (simp add: pt_save_model_writes)
  show ?pt_train by (blast dest: pt_train_fitted)
  show ?tf_gate by (rule tf_save_gate)
  show ?tf_raise by (simp add: tf_save_model_def)
  show ?tf_write by (simp add: tf_save_model_writes)
  show ?tf_train by (blast dest: tf_train_fitted)
  show ?sk_gate by (rule sk_save_gate)
  show ?sk_raise by (simp add: sk_save_model_def)
  show ?sk_write by (simp add: sk_save_model_writes)
  show ?sk_train by (blast dest: sk_train_fitted)
qed

text \<open>
  A fresh and a trained instance of each strategy, saving to an empty file system; the
  exports of the trained instances return, and so do the saves. The trained instances
  are the ones left by the trainings of the scenario.
\<close>

theorem save_model_gate_and_artifacts_witness:
  "\<not> pt_is_trained (pt_init toy_pt 10000 64 64 30 (Some ''out''))
   \<and> pt_save_model toy_pt (pt_init toy_pt 10000 64 64 30 (Some ''out'')) Map.empty =
       (Inl (RuntimeError ''Cannot save untrained model''),
        pt_init toy_pt 10000 64 64 30 (Some ''out''), Map.empty)
   \<and> pt_is_trained pt_demo \<and> pt_model pt_demo = Some toy_net
   \<and> pt_label_encoder pt_demo = Some [JStr ''neg'', JStr ''pos'']
   \<and> list_all is_JStr [JStr ''neg'', JStr ''pos'']
   \<and> pt_save_model toy_pt pt_demo Map.empty =
       pt_export_to_onnx toy_pt pt_demo
         [out_file (pt_output_path pt_demo) ''model.pt'' \<mapsto> ModelFile (net_params toy_net),
          out_file (pt_output_path pt_demo) ''vocab.json'' \<mapsto>
            JsonFile (word_index (pt_tokenizer pt_demo)),
          out_file (pt_output_path pt_demo) ''scaler.json'' \<mapsto>
            JsonFile [(''0'', JStr ''neg''), (''1'', JStr ''pos'')]]
   \<and> fst (pt_save_model toy_pt pt_demo Map.empty) = Inr ()
   \<and> \<not> tf_is_trained (tf_init toy_tf 10000 30 (Some ''out''))
   \<and> tf_save_model toy_tf (tf_init toy_tf 10000 30 (Some ''out'')) Map.empty =
       (Inl (RuntimeError ''Cannot save untrained model''),
        tf_init toy_tf 10000 30 (Some ''out''), Map.empty)
   \<and> tf_is_trained tf_demo
   \<and> tf_model tf_demo = Some \<lparr>km_input_name = ''input'', km_output_name = ''output'',
                               km_num_classes = 2, km_weights = ()\<rparr>
   \<and> tf_label_encoder tf_demo = Some [JStr ''neg'', JStr ''pos'']
   \<and> tf_save_model toy_tf tf_demo Map.empty =
       tf_export_to_onnx toy_tf tf_demo
         [out_file (tf_output_path tf_demo) ''model.h5'' \<mapsto>
            ModelFile \<lparr>km_input_name = ''input'', km_output_name = ''output'',
                       km_num_classes = 2, km_weights = ()\<rparr>,
          out_file (tf_output_path tf_demo) ''vocab.json'' \<mapsto>
            JsonFile (word_index (tf_tokenizer tf_demo)),
          out_file (tf_output_path tf_demo) ''scaler.json'' \<mapsto>
            JsonFile [(''0'', JStr ''neg''), (''1'', JStr ''pos'')]]
   \<and> fst (tf_save_model toy_tf tf_demo Map.empty) = Inr ()
   \<and> \<not> sk_is_trained (sk_init toy_sk 10000 (Some ''out''))
   \<and> sk_save_model toy_sk (sk_init toy_sk 10000 (Some ''out'')) Map.empty =
       (Inl (RuntimeError ''Cannot save untrained model''),
        sk_init toy_sk 10000 (Some ''out''), Map.empty)
   \<and> sk_is_trained sk_demo
   \<and> pl_vocabulary (sk_pipeline sk_demo) =
        Some [(''bad'', JInt 0), (''good'', JInt 1), (''great'', JInt 2), (''product'', JInt 3),
              (''service'', JInt 4), (''terrible'', JInt 5)]
   \<and> list_all (\<lambda>kv. is_JInt (snd kv))
        [(''bad'', JInt 0), (''good'', JInt 1), (''great'', JInt 2), (''product'', JInt 3),
         (''service'', JInt 4), (''terrible'', JInt 5)]
   \<and> sk_label_encoder sk_demo = Some [JStr ''neg'', JStr ''pos'']
   \<and> sk_save_model toy_sk sk_demo Map.empty =
       sk_export_to_onnx toy_sk sk_demo
         [out_file (sk_output_path sk_demo) ''model.pkl'' \<mapsto> ModelFile (sk_pipeline sk_demo),
          out_file (sk_output_path sk_demo) ''vocab.json'' \<mapsto>
            JsonFile [(''bad'', JInt 0), (''good'', JInt 1), (''great'', JInt 2),
                      (''product'', JInt 3), (''service'', JInt 4), (''terrible'', JInt 5)],
          out_file (sk_output_path sk_demo) ''scaler.json'' \<mapsto>
            JsonFile [(''0'', JStr ''neg''), (''1'', JStr ''pos'')]]
   \<and> fst (sk_save_model toy_sk sk_demo Map.empty) = Inr ()
   \<and> pt_train toy_pt (pt_init toy_pt 10000 64 64 30 (Some ''out'')) X_demo y_demo X_demo y_demo =
       (Inr \<lparr>train_accuracy = (0, 4), test_accuracy = (0, 4), report = (2, 4)\<rparr>, pt_demo)
   \<and> (\<exists>m classes. pt_model pt_demo = Some m \<and> pt_label_encoder pt_demo = Some classes
          \<and> list_all is_JStr classes)
   \<and> tf_train toy_tf (tf_init toy_tf 10000 30 (Some ''out'')) X_demo y_demo X_demo y_demo =
       (Inr \<lparr>train_accuracy = (2, 4), test_accuracy = (2, 4), report = (2, 4)\<rparr>, tf_demo)
   \<and> (\<exists>m classes. tf_model tf_demo = Some m \<and> tf_label_encoder tf_demo = Some classes
          \<and> list_all is_JStr classes)
   \<and> sk_train toy_sk (sk_init toy_sk 10000 (Some ''out'')) X_demo y_demo X_demo y_demo =
       (Inr \<lparr>train_accuracy = (2, 4), test_accuracy = (2, 4), report = (2, 4)\<rparr>, sk_demo)
   \<and> (\<exists>classes. sk_label_encoder sk_demo = Some classes \<and> list_all is_JStr classes)"
proof -
  let ?pt0 = "pt_init toy_pt 10000 64 64 30 (Some ''out'')"
  let ?tf0 = "tf_init toy_tf 10000 30 (Some ''out'')"
  let ?sk0 = "sk_init toy_sk 10000 (Some ''out'')"
  let ?km = "\<lparr>km_input_name = ''input'', km_output_name = ''output'', km_num_classes = 2,
              km_weights = ()\<rparr>"
  let ?classes = "[JStr ''neg'', JStr ''pos'']"
  let ?vocab = "[(''bad'', JInt 0), (''good'', JInt 1), (''great'', JInt 2), (''product'', JInt 3),
                 (''service'', JInt 4), (''terrible'', JInt 5)]"
  have fresh: "\<not> pt_is_trained ?pt0" "\<not> tf_is_trained ?tf0" "\<not> sk_is_trained ?sk0"
    by (simp_all add: pt_init_def tf_init_def sk_init_def)
  have pt: "pt_is_trained pt_demo" "pt_model pt_demo = Some toy_net"
      "pt_label_encoder pt_demo = Some ?classes"
    by (simp_all add: pt_demo_value)
  have tf: "tf_is_trained tf_demo" "tf_model tf_demo = Some ?km"
      "tf_label_encoder tf_demo = Some ?classes"
    by (simp_all add: tf_demo_value)
  have sk: "sk_is_trained sk_demo" "pl_vocabulary (sk_pipeline sk_demo) = Some ?vocab"
      "sk_label_encoder sk_demo = Some ?classes"
    by (simp_all add: sk_demo_value)
  have strs: "list_all is_JStr ?classes"
    by (simp add: is_JStr_def)
  have ints: "list_all (\<lambda>kv. is_JInt (snd kv)) ?vocab"
    by (simp add: is_JInt_def)
  have keys: "zip (map str_nat [0..<length ?classes]) ?classes
                = [(''0'', JStr ''neg''), (''1'', JStr ''pos'')]"
    by code_simp
  note fresh_inst = save_model_gate_and_artifacts
    [of toy_pt ?pt0 Map.empty _ _ _ _ _ _ _ _ toy_tf ?tf0 Map.empty _ _ _ _ _ _ _ _
        toy_sk ?sk0 Map.empty]
  note inst = save_model_gate_and_artifacts
    [of toy_pt pt_demo Map.empty toy_net ?classes ?pt0 X_demo y_demo X_demo y_demo
        "\<lparr>train_accuracy = (0, 4), test_accuracy = (0, 4), report = (2, 4)\<rparr>"
        toy_tf tf_demo Map.empty ?km ?classes ?tf0 X_demo y_demo X_demo y_demo
        "\<lparr>train_accuracy = (2, 4), test_accuracy = (2, 4), report = (2, 4)\<rparr>"
        toy_sk sk_demo Map.empty ?vocab ?classes ?sk0 X_demo y_demo X_demo y_demo
        "\<lparr>train_accuracy = (2, 4), test_accuracy = (2, 4), report = (2, 4)\<rparr>"]
  from fresh_inst [THEN conjunct2, THEN conjunct1] fresh(1)
  have a: "pt_save_model toy_pt ?pt0 Map.empty =
             (Inl (RuntimeError ''Cannot save untrained model''), ?pt0, Map.empty)"
    by (rule mp)
  from fresh_inst [THEN conjunct2, THEN conjunct2, THEN conjunct2, THEN conjunct2,
                   THEN conjunct2, THEN conjunct1] fresh(2)
  have b: "tf_save_model toy_tf ?tf0 Map.empty =
             (Inl (RuntimeError ''Cannot save untrained model''), ?tf0, Map.empty)"
    by (rule mp)
  from fresh_inst [THEN conjunct2, THEN conjunct2, THEN conjunct2, THEN conjunct2,
                   THEN conjunct2, THEN conjunct2, THEN conjunct2, THEN conjunct2,
                   THEN conjunct2, THEN conjunct1] fresh(3)
  have c: "sk_save_model toy_sk ?sk0 Map.empty =
             (Inl (RuntimeError ''Cannot save untrained model''), ?sk0, Map.empty)"
    by (rule mp)
  from inst [THEN conjunct2, THEN conjunct2, THEN conjunct1] pt strs
  have d: "pt_save_model toy_pt pt_demo Map.empty =
       pt_export_to_onnx toy_pt pt_demo
         [out_file (pt_output_path pt_demo) ''model.pt'' \<mapsto> ModelFile (net_params toy_net),
          out_file (pt_output_path pt_demo) ''vocab.json'' \<mapsto>
            JsonFile (word_index (pt_tokenizer pt_demo)),
          out_file (pt_output_path pt_demo) ''scaler.json'' \<mapsto>
            JsonFile [(''0'', JStr ''neg''), (''1'', JStr ''pos'')]]"
    unfolding keys by blast
  from inst [THEN conjunct2, THEN conjunct2, THEN conjunct2, THEN conjunct2,
             THEN conjunct2, THEN conjunct2, THEN conjunct1] tf strs
  have e: "tf_save_model toy_tf tf_demo Map.empty =
       tf_export_to_onnx toy_tf tf_demo
         [out_file (tf_output_path tf_demo) ''model.h5'' \<mapsto> ModelFile ?km,
          out_file (tf_output_path tf_demo) ''vocab.json'' \<mapsto>
            JsonFile (word_index (tf_tokenizer tf_demo)),
          out_file (tf_output_path tf_demo) ''scaler.json'' \<mapsto>
            JsonFile [(''0'', JStr ''neg''), (''1'', JStr ''pos'')]]"
    unfolding keys by blast
  from inst [THEN conjunct2, THEN conjunct2, THEN conjunct2, THEN conjunct2,
             THEN conjunct2, THEN conjunct2, THEN conjunct2, THEN conjunct2,
             THEN conjunct2, THEN conjunct2, THEN conjunct1] sk strs ints
  have f: "sk_save_model toy_sk sk_demo Map.empty =
       sk_export_to_onnx toy_sk sk_demo
         [out_file (sk_output_path sk_demo) ''model.pkl'' \<mapsto> ModelFile (sk_pipeline sk_demo),
          out_file (sk_output_path sk_demo) ''vocab.json'' \<mapsto> JsonFile ?vocab,
          out_file (sk_output_path sk_demo) ''scaler.json'' \<mapsto>
            JsonFile [(''0'', JStr ''neg''), (''1'', JStr ''pos'')]]"
    unfolding keys by blast
  from inst [THEN conjunct2, THEN conjunct2, THEN conjunct2, THEN conjunct1] pt_train_demo
  have g: "pt_is_trained pt_demo
             \<and> (\<exists>m classes. pt_model pt_demo = Some m \<and> pt_label_encoder pt_demo = Some classes
                    \<and> list_all is_JStr classes)"
    by (rule mp)
  from inst [THEN conjunct2, THEN conjunct2, THEN conjunct2, THEN conjunct2,
             THEN conjunct2, THEN conjunct2, THEN conjunct2, THEN conjunct1] tf_train_demo
  have h: "tf_is_trained tf_demo
             \<and> (\<exists>m classes. tf_model tf_demo = Some m \<and> tf_label_encoder tf_demo = Some classes
                    \<and> list_all is_JStr classes)"
    by (rule mp)
  from inst [THEN conjunct2, THEN conjunct2, THEN conjunct2, THEN conjunct2,
             THEN conjunct2, THEN conjunct2, THEN conjunct2, THEN conjunct2,
             THEN conjunct2, THEN conjunct2, THEN conjunct2] sk_train_demo
  have i: "sk_is_trained sk_demo
             \<and> (\<exists>classes. sk_label_encoder sk_demo = Some classes \<and> list_all is_JStr classes)"
    by (rule mp)
  from fresh pt tf sk strs ints a b c d e f g h i pt_demo_saves tf_demo_saves sk_demo_saves
       pt_train_demo tf_train_demo sk_train_demo
  show ?thesis
    by (intro conjI) blast+
qed

section \<open>The label map round trip\<close>

text \<open>
  Claim C7. After a training that returned, for every label of the training labels:
  the fitted encoder maps the label to an index, and \<^verbatim>\<open>save_model\<close> (for the linear
  strategy: when the vectorizer's vocabulary is one of integers, so that the save
  reaches the label map) leaves a \<^verbatim>\<open>scaler.json\<close> in which the decimal string of
  that index is mapped to the label, whether the export that ends the save returns or
  not; the list that \<^verbatim>\<open>load_model\<close> decodes from that file has the label at that
  index.
\<close>

theorem label_map_round_trip:
  "(pt_train L1 s1 X1 y1 X1' y1' = (Inr mt1, t1) \<and> l1 \<in> set y1 \<longrightarrow>
      (\<exists>i d. transform (pt_label_encoder t1) [l1] = Inr [i]
            \<and> snd (snd (pt_save_model L1 t1 files1)) (out_file (pt_output_path t1) ''scaler.json'')
                = Some (JsonFile d)
            \<and> dict_get d (str_nat i) = Inr (JStr l1)
            \<and> (\<exists>labels. labels_of_json d = Inr labels \<and> i < length labels \<and> labels ! i = JStr l1)))
   \<and> (tf_train L2 s2 X2 y2 X2' y2' = (Inr mt2, t2) \<and> l2 \<in> set y2 \<longrightarrow>
      (\<exists>i d. transform (tf_label_encoder t2) [l2] = Inr [i]
            \<and> snd (snd (tf_save_model L2 t2 files2)) (out_file (tf_output_path t2) ''scaler.json'')
                = Some (JsonFile d)
            \<and> dict_get d (str_nat i) = Inr (JStr l2)
            \<and> (\<exists>labels. labels_of_json d = Inr labels \<and> i < length labels \<and> labels ! i = JStr l2)))
   \<and> (sk_train L3 s3 X3 y3 X3' y3' = (Inr mt3, t3) \<and> l3 \<in> set y3
        \<and> pl_vocabulary (sk_pipeline t3) = Some vocabulary3
        \<and> list_all (\<lambda>kv. is_JInt (snd kv)) vocabulary3 \<longrightarrow>
      (\<exists>i d. transform (sk_label_encoder t3) [l3] = Inr [i]
            \<and> snd (snd (sk_save_model L3 t3 files3)) (out_file (sk_output_path t3) ''scaler.json'')
                = Some (JsonFile d)
            \<and> dict_get d (str_nat i) = Inr (JStr l3)
            \<and> (\<exists>labels. labels_of_json d = Inr labels \<and> i < length labels \<and> labels ! i = JStr l3)))"
  (is "?pt \<and> ?tf \<and> ?sk")
proof (intro conjI)
  show ?pt
  proof (intro impI, elim conjE)
    assume tr: "pt_train L1 s1 X1 y1 X1' y1' = (Inr mt1, t1)" and l: "l1 \<in> set y1"
    from round_trip [OF pt_train_success(2) [OF tr] pt_saved_scaler [OF tr] l]
    show "\<exists>i d. transform (pt_label_encoder t1) [l1] = Inr [i]
            \<and> snd (snd (pt_save_model L1 t1 files1)) (out_file (pt_output_path t1) ''scaler.json'')
                = Some (JsonFile d)
            \<and> dict_get d (str_nat i) = Inr (JStr l1)
            \<and> (\<exists>labels. labels_of_json d = Inr labels \<and> i < length labels \<and> labels ! i = JStr l1)"
      by simp
  qed
  show ?tf
  proof (intro impI, elim conjE)
    assume tr: "tf_train L2 s2 X2 y2 X2' y2' = (Inr mt2, t2)" and l: "l2 \<in> set y2"
    from round_trip [OF tf_train_success(2) [OF tr] tf_saved_scaler [OF tr] l]
    show "\<exists>i d. transform (tf_label_encoder t2) [l2] = Inr [i]
            \<and> snd (snd (tf_save_model L2 t2 files2)) (out_file (tf_output_path t2) ''scaler.json'')
                = Some (JsonFile d)
            \<and> dict_get d (str_nat i) = Inr (JStr l2)
            \<and> (\<exists>labels. labels_of_json d = Inr labels \<and> i < length labels \<and> labels ! i = JStr l2)"
      by simp
  qed
  show ?sk
  proof (intro impI, elim conjE)
    assume tr: "sk_train L3 s3 X3 y3 X3' y3' = (Inr mt3, t3)" and l: "l3 \<in> set y3"
      and v: "pl_vocabulary (sk_pipeline t3) = Some vocabulary3"
        "list_all (\<lambda>kv. is_JInt (snd kv)) vocabulary3"
    from round_trip [OF sk_train_success(2) [OF tr] sk_saved_scaler [OF tr v] l]
    show "\<exists>i d. transform (sk_label_encoder t3) [l3] = Inr [i]
            \<and> snd (snd (sk_save_model L3 t3 files3)) (out_file (sk_output_path t3) ''scaler.json'')
                = Some (JsonFile d)
            \<and> dict_get d (str_nat i) = Inr (JStr l3)
            \<and> (\<exists>labels. labels_of_json d = Inr labels \<and> i < length labels \<and> labels ! i = JStr l3)"
      by simp
  qed
qed

text \<open>The label \<^verbatim>\<open>pos\<close> of the scenario, for each of the three trained instances.\<close>

theorem label_map_round_trip_witness:
  "pt_train toy_pt (pt_init toy_pt 10000 64 64 30 (Some ''out'')) X_demo y_demo X_demo y_demo =
     (Inr \<lparr>train_accuracy = (0, 4), test_accuracy = (0, 4), report = (2, 4)\<rparr>, pt_demo)
   \<and> ''pos'' \<in> set y_demo
   \<and> (\<exists>i d. transform (pt_label_encoder pt_demo) [''pos''] = Inr [i]
         \<and> snd (snd (pt_save_model toy_pt pt_demo Map.empty))
               (out_file (pt_output_path pt_demo) ''scaler.json'') = Some (JsonFile d)
         \<and> dict_get d (str_nat i) = Inr (JStr ''pos'')
         \<and> (\<exists>labels. labels_of_json d = Inr labels \<and> i < length labels
               \<and> labels ! i = JStr ''pos''))
   \<and> tf_train toy_tf (tf_init toy_tf 10000 30 (Some ''out'')) X_demo y_demo X_demo y_demo =
     (Inr \<lparr>train_accuracy = (2, 4), test_accuracy = (2, 4), report = (2, 4)\<rparr>, tf_demo)
   \<and> (\<exists>i d. transform (tf_label_encoder tf_demo) [''pos''] = Inr [i]
         \<and> snd (snd (tf_save_model toy_tf tf_demo Map.empty))
               (out_file (tf_output_path tf_demo) ''scaler.json'') = Some (JsonFile d)
         \<and> dict_get d (str_nat i) = Inr (JStr ''pos'')
         \<and> (\<exists>labels. labels_of_json d = Inr labels \<and> i < length labels
               \<and> labels ! i = JStr ''pos''))
   \<and> sk_train toy_sk (sk_init toy_sk 10000 (Some ''out'')) X_demo y_demo X_demo y_demo =
     (Inr \<lparr>train_accuracy = (2, 4), test_accuracy = (2, 4), report = (2, 4)\<rparr>, sk_demo)
   \<and> pl_vocabulary (sk_pipeline sk_demo) =
        Some [(''bad'', JInt 0), (''good'', JInt 1), (''great'', JInt 2), (''product'', JInt 3),
              (''service'', JInt 4), (''terrible'', JInt 5)]
   \<and> list_all (\<lambda>kv. is_JInt (snd kv))
        [(''bad'', JInt 0), (''good'', JInt 1), (''great'', JInt 2), (''product'', JInt 3),
         (''service'', JInt 4), (''terrible'', JInt 5)]
   \<and> (\<exists>i d. transform (sk_label_encoder sk_demo) [''pos''] = Inr [i]
         \<and> snd (snd (sk_save_model toy_sk sk_demo Map.empty))
               (out_file (sk_output_path sk_demo) ''scaler.json'') = Some (JsonFile d)
         \<and> dict_get d (str_nat i) = Inr (JStr ''pos'')
         \<and> (\<exists>labels. labels_of_json d = Inr labels \<and> i < length labels
               \<and> labels ! i = JStr ''pos''))"
proof -
  let ?vocab = "[(''bad'', JInt 0), (''good'', JInt 1), (''great'', JInt 2), (''product'', JInt 3),
                 (''service'', JInt 4), (''terrible'', JInt 5)]"
  have l: "''pos'' \<in> set y_demo"
    by (simp add: y_demo_def)
  have v: "pl_vocabulary (sk_pipeline sk_demo) = Some ?vocab"
    by (simp add: sk_demo_value)
  have ints: "list_all (\<lambda>kv. is_JInt (snd kv)) ?vocab"
    by (simp add: is_JInt_def)
  note inst = label_map_round_trip
    [of toy_pt "pt_init toy_pt 10000 64 64 30 (Some ''out'')" X_demo y_demo X_demo y_demo
        "\<lparr>train_accuracy = (0, 4), test_accuracy = (0, 4), report = (2, 4)\<rparr>" pt_demo "''pos''"
        Map.empty
        toy_tf "tf_init toy_tf 10000 30 (Some ''out'')" X_demo y_demo X_demo y_demo
        "\<lparr>train_accuracy = (2, 4), test_accuracy = (2, 4), report = (2, 4)\<rparr>" tf_demo "''pos''"
        Map.empty
        toy_sk "sk_init toy_sk 10000 (Some ''out'')" X_demo y_demo X_demo y_demo
        "\<lparr>train_accuracy = (2, 4), test_accuracy = (2, 4), report = (2, 4)\<rparr>" sk_demo "''pos''"
        ?vocab Map.empty]
  from inst [THEN conjunct1] pt_train_demo l
  have a: "\<exists>i d. transform (pt_label_encoder pt_demo) [''pos''] = Inr [i]
         \<and> snd (snd (pt_save_model toy_pt pt_demo Map.empty))
               (out_file (pt_output_path pt_demo) ''scaler.json'') = Some (JsonFile d)
         \<and> dict_get d (str_nat i) = Inr (JStr ''pos'')
         \<and> (\<exists>labels. labels_of_json d = Inr labels \<and> i < length labels
               \<and> labels ! i = JStr ''pos'')"
    by blast
  from inst [THEN conjunct2, THEN conjunct1] tf_train_demo l
  have b: "\<exists>i d. transform (tf_label_encoder tf_demo) [''pos''] = Inr [i]
         \<and> snd (snd (tf_save_model toy_tf tf_demo Map.empty))
               (out_file (tf_output_path tf_demo) ''scaler.json'') = Some (JsonFile d)
         \<and> dict_get d (str_nat i) = Inr (JStr ''pos'')
         \<and> (\<exists>labels. labels_of_json d = Inr labels \<and> i < length labels
               \<and> labels ! i = JStr ''pos'')"
    by blast
  from inst [THEN conjunct2, THEN conjunct2] sk_train_demo l v ints
  have c: "\<exists>i d. transform (sk_label_encoder sk_demo) [''pos''] = Inr [i]
         \<and> snd (snd (sk_save_model toy_sk sk_demo Map.empty))
               (out_file (sk_output_path sk_demo) ''scaler.json'') = Some (JsonFile d)
         \<and> dict_get d (str_nat i) = Inr (JStr ''pos'')
         \<and> (\<exists>labels. labels_of_json d = Inr labels \<and> i < length labels
               \<and> labels ! i = JStr ''pos'')"
    by blast
  from a b c l v ints pt_train_demo tf_train_demo sk_train_demo
  show ?thesis by simp
qed

section \<open>The exported graph\<close>







section \<open>Loading into a fresh instance\<close>

lemma pt_demo_encoder: "pt_label_encoder pt_demo = Some [JStr ''neg'', JStr ''pos'']"
  by (simp add: pt_demo_value)

lemma pt_demo_builds: "pt_build_model toy_pt pt_demo (length [JStr ''neg'', JStr ''pos''])
       = Inr (toy_net\<lparr>net_training := True\<rparr>)"
  by code_simp

lemma pt_demo_loads: "fst (pt_load_model toy_pt pt_demo ''run2'' two_class_files) = Inr ()"
  by code_simp

text \<open>
  Claim C9. \<^verbatim>\<open>load_model\<close> on a freshly constructed \<^verbatim>\<open>PyTorchLSTMStrategy\<close> raises
  (\<^verbatim>\<open>AttributeError\<close>: the fresh label encoder has no \<^verbatim>\<open>classes_\<close>) whatever the
  files hold, and leaves the instance as it was, the trained flag unset. On an instance
  whose encoder has classes, once the network is constructed, the network that
  \<^verbatim>\<open>load_model\<close> leaves behind has as many outputs as that encoder had classes
  before the call, in every outcome. A \<^verbatim>\<open>load_model\<close> that returns leaves a network
  of that size beside the labels decoded from the persisted label map: the persisted
  label map does not size the network.
\<close>

theorem pt_load_model_sizes_from_old_encoder:
  "pt_load_model L (pt_init L v e h n out) filename_prefix files
     = (Inl AttributeError, pt_init L v e h n out)
   \<and> \<not> pt_is_trained (snd (pt_load_model L (pt_init L v e h n out) filename_prefix files))
   \<and> (pt_label_encoder s = Some old \<and> pt_build_model L s (length old) = Inr m0 \<longrightarrow>
        (\<exists>m. pt_model (snd (pt_load_model L s filename_prefix files)) = Some m
             \<and> net_shape m = net_shape m0 \<and> sh_num_classes (net_shape m) = length old))
   \<and> (pt_load_model L s filename_prefix files = (Inr (), s') \<longrightarrow>
        (\<exists>old m d labels. pt_label_encoder s = Some old \<and> pt_model s' = Some m
             \<and> sh_num_classes (net_shape m) = length old
             \<and> json_load files (models_file filename_prefix ''scaler.json'') = Inr d
             \<and> labels_of_json d = Inr labels
             \<and> pt_label_encoder s' = Some (np_array labels) \<and> pt_is_trained s'))"
proof -
  have fresh: "pt_load_model L (pt_init L v e h n out) filename_prefix files
                 = (Inl AttributeError, pt_init L v e h n out)"
    by (simp add: pt_load_model_def pt_init_def)
  have flag: "\<not> pt_is_trained (pt_init L v e h n out)"
    by (simp add: pt_init_def)
  have sized: "\<exists>m. pt_model (snd (pt_load_model L s filename_prefix files)) = Some m
                  \<and> net_shape m = net_shape m0 \<and> sh_num_classes (net_shape m) = length old"
    if "pt_label_encoder s = Some old" and "pt_build_model L s (length old) = Inr m0"
    using that
    by (auto simp: pt_load_model_def pt_build_model_def Let_def
             split: sum.splits prod.splits option.splits)
  have returned: "\<exists>old m d labels. pt_label_encoder s = Some old \<and> pt_model s' = Some m
             \<and> sh_num_classes (net_shape m) = length old
             \<and> json_load files (models_file filename_prefix ''scaler.json'') = Inr d
             \<and> labels_of_json d = Inr labels
             \<and> pt_label_encoder s' = Some (np_array labels) \<and> pt_is_trained s'"
    if "pt_load_model L s filename_prefix files = (Inr (), s')"
    using that
    by (auto simp: pt_load_model_def pt_build_model_def Let_def
             split: sum.splits prod.splits option.splits)
  from fresh flag sized returned show ?thesis by simp
qed

text \<open>
  The instance trained on two classes. Loading the artifacts of a three-class network:
  the network is built with two outputs and the state dict does not fit it. Loading
  the artifacts of a two-class network beside a map of three labels: the load returns,
  with a network of two outputs and an encoder of three classes.
\<close>

theorem pt_load_model_sizes_from_old_encoder_witness:
  "pt_label_encoder pt_demo = Some [JStr ''neg'', JStr ''pos'']
   \<and> pt_build_model toy_pt pt_demo (length [JStr ''neg'', JStr ''pos''])
       = Inr (toy_net\<lparr>net_training := True\<rparr>)
   \<and> (\<exists>m. pt_model (snd (pt_load_model toy_pt pt_demo ''run1'' three_class_files)) = Some m
           \<and> net_shape m = net_shape toy_net
           \<and> sh_num_classes (net_shape m) = length [JStr ''neg'', JStr ''pos''])
   \<and> fst (pt_load_model toy_pt pt_demo ''run1'' three_class_files)
       = Inl (RuntimeError ''size mismatch'')
   \<and> fst (pt_load_model toy_pt pt_demo ''run2'' two_class_files) = Inr ()
   \<and> (\<exists>old m d labels. pt_label_encoder pt_demo = Some old
         \<and> pt_model (snd (pt_load_model toy_pt pt_demo ''run2'' two_class_files)) = Some m
         \<and> sh_num_classes (net_shape m) = length old
         \<and> json_load two_class_files (models_file ''run2'' ''scaler.json'') = Inr d
         \<and> labels_of_json d = Inr labels
         \<and> pt_label_encoder (snd (pt_load_model toy_pt pt_demo ''run2'' two_class_files))
             = Some (np_array labels)
         \<and> pt_is_trained (snd (pt_load_model toy_pt pt_demo ''run2'' two_class_files)))
   \<and> map_option (sh_num_classes \<circ> net_shape)
       (pt_model (snd (pt_load_model toy_pt pt_demo ''run2'' two_class_files))) = Some 2
   \<and> map_option length
       (pt_label_encoder (snd (pt_load_model toy_pt pt_demo ''run2'' two_class_files))) = Some 3"
proof -
  let ?load = "pt_load_model toy_pt pt_demo ''run2'' two_class_files"
  have a: "pt_label_encoder pt_demo = Some [JStr ''neg'', JStr ''pos'']"
    by (rule pt_demo_encoder)
  have b: "fst (pt_load_model toy_pt pt_demo ''run1'' three_class_files)
             = Inl (RuntimeError ''size mismatch'')"
    by code_simp
  have c: "?load = (Inr (), snd ?load)"
    using pt_demo_loads by (simp add: prod_eq_iff)
  have d: "map_option (sh_num_classes \<circ> net_shape) (pt_model (snd ?load)) = Some 2"
    by code_simp
  have e: "map_option length (pt_label_encoder (snd ?load)) = Some 3"
    by code_simp
  note first = pt_load_model_sizes_from_old_encoder
      [of toy_pt _ _ _ _ _ "''run1''" three_class_files pt_demo "[JStr ''neg'', JStr ''pos'']"
          "toy_net\<lparr>net_training := True\<rparr>"]
  note second = pt_load_model_sizes_from_old_encoder
      [of toy_pt _ _ _ _ _ "''run2''" two_class_files pt_demo _ _ "snd ?load"]
  from first [THEN conjunct2, THEN conjunct2, THEN conjunct1] a pt_demo_builds
  have f: "\<exists>m. pt_model (snd (pt_load_model toy_pt pt_demo ''run1'' three_class_files)) = Some m
           \<and> net_shape m = net_shape toy_net
           \<and> sh_num_classes (net_shape m) = length [JStr ''neg'', JStr ''pos'']"
    by simp
  from second [THEN conjunct2, THEN conjunct2, THEN conjunct2] c
  have g: "\<exists>old m d labels. pt_label_encoder pt_demo = Some old
         \<and> pt_model (snd ?load) = Some m
         \<and> sh_num_classes (net_shape m) = length old
         \<and> json_load two_class_files (models_file ''run2'' ''scaler.json'') = Inr d
         \<and> labels_of_json d = Inr labels
         \<and> pt_label_encoder (snd ?load) = Some (np_array labels)
         \<and> pt_is_trained (snd ?load)"
    by (rule mp)
  from a b d e f g pt_demo_builds pt_demo_loads show ?thesis by simp
qed

section \<open>The trained flag\<close>

lemma pt_train_trained:
  "pt_is_trained s \<Longrightarrow> pt_is_trained (snd (pt_train L s X_train y_train X_test y_test))"
  by (auto simp: pt_train_def Let_def split: option.splits sum.splits prod.splits
           dest!: pt_predict_stateD)

lemma pt_predict_trained:
  "pt_is_trained s \<Longrightarrow> pt_is_trained (snd (pt_predict L s X))"
  by (simp add: pt_predict_state)

lemma pt_export_trained:
  "pt_is_trained s \<Longrightarrow> pt_is_trained (fst (snd (pt_export_to_onnx L s files)))"
  by (auto simp: pt_export_to_onnx_def Let_def split: option.splits)

lemma pt_save_trained:
  "pt_is_trained s \<Longrightarrow> pt_is_trained (fst (snd (pt_save_model L s files)))"
  by (auto simp: pt_save_model_def Let_def pt_export_trained
           split: option.splits sum.splits prod.splits)

lemma pt_load_trained:
  "pt_is_trained s \<Longrightarrow> pt_is_trained (snd (pt_load_model L s filename_prefix files))"
  by (auto simp: pt_load_model_def Let_def split: option.splits sum.splits prod.splits)

lemma pt_do_trained:
  "pt_is_trained (fst st) \<Longrightarrow> pt_is_trained (fst (pt_do L st c))"
  by (cases st; cases c)
     (simp_all add: pt_train_trained pt_predict_trained pt_export_trained pt_save_trained
        pt_load_trained)

lemma pt_calls_trained:
  "pt_is_trained (fst st) \<Longrightarrow> pt_is_trained (fst (foldl (pt_do L) st calls))"
  by (induction calls arbitrary: st) (simp_all add: pt_do_trained)

lemma tf_train_trained:
  "tf_is_trained s \<Longrightarrow> tf_is_trained (snd (tf_train L s X_train y_train X_test y_test))"
  by (auto simp: tf_train_def Let_def split: option.splits sum.splits prod.splits)

lemma tf_predict_trained:
  "tf_is_trained s \<Longrightarrow> tf_is_trained (snd (tf_predict L s X_seq))"
  by (simp add: tf_predict_def)

lemma tf_export_trained:
  "tf_is_trained s \<Longrightarrow> tf_is_trained (fst (snd (tf_export_to_onnx L s files)))"
  by (auto simp: tf_export_to_onnx_def Let_def split: option.splits)

lemma tf_save_trained:
  "tf_is_trained s \<Longrightarrow> tf_is_trained (fst (snd (tf_save_model L s files)))"
  by (auto simp: tf_save_model_def Let_def tf_export_trained
           split: option.splits sum.splits prod.splits)

lemma tf_load_trained:
  "tf_is_trained s \<Longrightarrow> tf_is_trained (snd (tf_load_model L s filename_prefix files))"
  by (auto simp: tf_load_model_def Let_def split: option.splits sum.splits prod.splits)

lemma tf_do_trained:
  "tf_is_trained (fst st) \<Longrightarrow> tf_is_trained (fst (tf_do L st c))"
  by (cases st; cases c)
     (simp_all add: tf_train_trained tf_predict_trained tf_export_trained tf_save_trained
        tf_load_trained)

lemma tf_calls_trained:
  "tf_is_trained (fst st) \<Longrightarrow> tf_is_trained (fst (foldl (tf_do L) st calls))"
  by (induction calls arbitrary: st) (simp_all add: tf_do_trained)

lemma sk_train_trained:
  "sk_is_trained s \<Longrightarrow> sk_is_trained (snd (sk_train L s X_train y_train X_test y_test))"
  by (auto simp: sk_train_def Let_def split: option.splits sum.splits prod.splits)

lemma sk_predict_trained:
  "sk_is_trained s \<Longrightarrow> sk_is_trained (snd (sk_predict L s X))"
  by (simp add: sk_predict_def)

lemma sk_export_trained:
  "sk_is_trained s \<Longrightarrow> sk_is_trained (fst (snd (sk_export_to_onnx L s files)))"
  by (auto simp: sk_export_to_onnx_def Let_def split: option.splits)

lemma sk_save_trained:
  "sk_is_trained s \<Longrightarrow> sk_is_trained (fst (snd (sk_save_model L s files)))"
  by (auto simp: sk_save_model_def Let_def sk_export_trained
           split: option.splits sum.splits prod.splits)

lemma sk_load_trained:
  "sk_is_trained s \<Longrightarrow> sk_is_trained (snd (sk_load_model L s filename_prefix files))"
  by (auto simp: sk_load_model_def Let_def split: option.splits sum.splits prod.splits)

lemma sk_do_trained:
  "sk_is_trained (fst st) \<Longrightarrow> sk_is_trained (fst (sk_do L st c))"
  by (cases st; cases c)
     (simp_all add: sk_train_trained sk_predict_trained sk_export_trained sk_save_trained
        sk_load_trained)

lemma sk_calls_trained:
  "sk_is_trained (fst st) \<Longrightarrow> sk_is_trained (fst (foldl (sk_do L) st calls))"
  by (induction calls arbitrary: st) (simp_all add: sk_do_trained)

lemma pt_demo_trained: "pt_is_trained pt_demo"
  by (simp add: pt_demo_value)

lemma tf_demo_trained: "tf_is_trained tf_demo"
  by (simp add: tf_demo_value)

lemma sk_demo_trained: "sk_is_trained sk_demo"
  by (simp add: sk_demo_value)

text \<open>
  Claim C10. The trained flag is monotone: whatever sequence of calls to \<^verbatim>\<open>train\<close>,
  \<^verbatim>\<open>predict\<close>, \<^verbatim>\<open>save_model\<close>, \<^verbatim>\<open>load_model\<close> and \<^verbatim>\<open>export_to_onnx\<close> follows, on
  whatever files and with whatever outcomes, an instance whose flag is set keeps it
  set. This holds for each of the three strategies.
\<close>

theorem trained_flag_monotone:
  "(pt_is_trained s1 \<longrightarrow> pt_is_trained (fst (foldl (pt_do L1) (s1, files1) calls1)))
   \<and> (tf_is_trained s2 \<longrightarrow> tf_is_trained (fst (foldl (tf_do L2) (s2, files2) calls2)))
   \<and> (sk_is_trained s3 \<longrightarrow> sk_is_trained (fst (foldl (sk_do L3) (s3, files3) calls3)))"
  using pt_calls_trained [of "(s1, files1)" L1 calls1]
        tf_calls_trained [of "(s2, files2)" L2 calls2]
        sk_calls_trained [of "(s3, files3)" L3 calls3]
  by simp

text \<open>
  The three trained instances, each taken through a load that fails, a save, a second
  training that fails on an unseen test label, a prediction and an export.
\<close>

theorem trained_flag_monotone_witness:
  "pt_is_trained pt_demo
   \<and> pt_is_trained (fst (foldl (pt_do toy_pt) (pt_demo, Map.empty)
        [PtLoadModel ''run1'', PtSaveModel, PtTrain X_demo y_demo X_demo [''other''],
         PtPredict X_demo, PtExportToOnnx]))
   \<and> tf_is_trained tf_demo
   \<and> tf_is_trained (fst (foldl (tf_do toy_tf) (tf_demo, Map.empty)
        [TfLoadModel ''run1'', TfSaveModel, TfTrain X_demo y_demo X_demo [''other''],
         TfPredict [[1, 2]], TfExportToOnnx]))
   \<and> sk_is_trained sk_demo
   \<and> sk_is_trained (fst (foldl (sk_do toy_sk) (sk_demo, Map.empty)
        [SkLoadModel ''run1'', SkSaveModel, SkTrain X_demo y_demo X_demo [''other''],
         SkPredict X_demo, SkExportToOnnx]))"
  using trained_flag_monotone [of pt_demo toy_pt Map.empty _ tf_demo toy_tf Map.empty _
                                  sk_demo toy_sk Map.empty]
        pt_demo_trained tf_demo_trained sk_demo_trained
  by blast

end
